theory Spec2Isabelle
  imports Main
begin

section \<open>Values and exceptions of the Python program\<close>

text \<open>
  The program (\<^verbatim>\<open>main.py\<close>) reads schedule documents with \<^verbatim>\<open>json.load\<close> and walks
  the resulting Python object. A loaded document is a value of type \<open>json\<close>: \<^verbatim>\<open>None\<close>,
  a \<^verbatim>\<open>bool\<close>, an \<^verbatim>\<open>int\<close> (unbounded), a \<^verbatim>\<open>str\<close>, a \<^verbatim>\<open>list\<close> or a
  \<^verbatim>\<open>dict\<close> with string keys. A \<^verbatim>\<open>dict\<close> is an association list in insertion order;
  a lookup takes the first entry of a key, later entries of the same key are shadowed and
  never visible. A \<^verbatim>\<open>str\<close> is a list of characters, one \<open>char\<close> per code point below
  256. Numbers with a fraction or an exponent (Python \<^verbatim>\<open>float\<close>) are outside this
  development.
\<close>

datatype json =
    JNull
  | JBool bool
  | JInt int
  | JStr string
  | JArr "json list"
  | JObj "(string \<times> json) list"

text \<open>The exceptions the program can raise; nothing in \<^verbatim>\<open>main.py\<close> catches any.\<close>

datatype py_error =
    KeyError string
  | TypeError
  | AttributeError
  | ValueError
  | OverflowError
  | FileNotFoundError
  | JSONDecodeError

type_synonym 'a result = "py_error + 'a"

text \<open>Sequencing of two steps: an exception of the first step ends the computation.\<close>

definition and_then :: "'a result \<Rightarrow> ('a \<Rightarrow> 'b result) \<Rightarrow> 'b result" where
  "and_then r f = (case r of Inl e \<Rightarrow> Inl e | Inr v \<Rightarrow> f v)"

subsection \<open>Subscripts, \<^verbatim>\<open>get\<close>, iteration, truth value\<close>

text \<open>\<^verbatim>\<open>x[k]\<close> with a string \<open>k\<close>: only a \<^verbatim>\<open>dict\<close> takes a string subscript.\<close>

fun getitem :: "json \<Rightarrow> string \<Rightarrow> json result" where
  "getitem (JObj kvs) k = (case map_of kvs k of None \<Rightarrow> Inl (KeyError k) | Some v \<Rightarrow> Inr v)"
| "getitem _ k = Inl TypeError"

text \<open>\<^verbatim>\<open>x.get(k, d)\<close>: only a \<^verbatim>\<open>dict\<close> has the attribute \<^verbatim>\<open>get\<close>.\<close>

fun get_default :: "json \<Rightarrow> string \<Rightarrow> json \<Rightarrow> json result" where
  "get_default (JObj kvs) k d = Inr (case map_of kvs k of None \<Rightarrow> d | Some v \<Rightarrow> v)"
| "get_default _ k d = Inl AttributeError"

text \<open>The keys of a \<^verbatim>\<open>dict\<close> in insertion order, each once.\<close>

fun dict_keys :: "string list \<Rightarrow> (string \<times> json) list \<Rightarrow> string list" where
  "dict_keys seen [] = []"
| "dict_keys seen ((k, v) # kvs) =
     (if k \<in> set seen then dict_keys seen kvs else k # dict_keys (k # seen) kvs)"

text \<open>
  \<^verbatim>\<open>for x in v\<close>: a list yields its elements, a string its characters as strings of
  length one, a \<^verbatim>\<open>dict\<close> its keys; \<^verbatim>\<open>None\<close>, a \<^verbatim>\<open>bool\<close> and an \<^verbatim>\<open>int\<close>
  are not iterable.
\<close>

fun iterate :: "json \<Rightarrow> json list result" where
  "iterate (JArr xs) = Inr xs"
| "iterate (JStr s) = Inr (map (\<lambda>c. JStr [c]) s)"
| "iterate (JObj kvs) = Inr (map JStr (dict_keys [] kvs))"
| "iterate _ = Inl TypeError"

text \<open>The truth value Python gives a value in a condition.\<close>

fun truthy :: "json \<Rightarrow> bool" where
  "truthy JNull = False"
| "truthy (JBool b) = b"
| "truthy (JInt n) = (n \<noteq> 0)"
| "truthy (JStr s) = (s \<noteq> [])"
| "truthy (JArr xs) = (xs \<noteq> [])"
| "truthy (JObj kvs) = (kvs \<noteq> [])"

subsection \<open>\<^verbatim>\<open>str\<close> and \<^verbatim>\<open>repr\<close>\<close>

text \<open>
  The f-string \<^verbatim>\<open>f"{task_name}"\<close> is \<^verbatim>\<open>str(task_name)\<close>: a string is itself, every
  other value is printed as \<^verbatim>\<open>repr\<close> prints it.
\<close>

definition digit_char :: "nat \<Rightarrow> char" where
  "digit_char n = char_of (48 + n)"

definition hex_char :: "nat \<Rightarrow> char" where
  "hex_char n = (if n < 10 then char_of (48 + n) else char_of (87 + n))"

function str_nat :: "nat \<Rightarrow> string" where
  "str_nat n = (if n < 10 then [digit_char n] else str_nat (n div 10) @ [digit_char (n mod 10)])"
  by pat_completeness auto
termination
  by (relation "measure id") auto

definition str_int :: "int \<Rightarrow> string" where
  "str_int i = (if i < 0 then CHR ''-'' # str_nat (nat (- i)) else str_nat (nat i))"

text \<open>
  \<^verbatim>\<open>repr\<close> of a string: single quotes, unless the string holds a single quote and no
  double quote; the quote and the backslash are escaped, tab, newline and carriage return
  are written \<^verbatim>\<open>\t\<close>, \<^verbatim>\<open>\n\<close>, \<^verbatim>\<open>\r\<close>, every other unprintable character
  (below 32, 127 to 160, 173) as \<^verbatim>\<open>\xNN\<close>.
\<close>

definition repr_quote :: "string \<Rightarrow> char" where
  "repr_quote s = (if CHR 0x27 \<in> set s \<and> CHR 0x22 \<notin> set s then CHR 0x22 else CHR 0x27)"

definition repr_char :: "char \<Rightarrow> char \<Rightarrow> string" where
  "repr_char q c =
     (let n = (of_char c :: nat) in
      if c = q \<or> c = CHR 0x5C then [CHR 0x5C, c]
      else if n = 9 then [CHR 0x5C, CHR ''t'']
      else if n = 10 then [CHR 0x5C, CHR ''n'']
      else if n = 13 then [CHR 0x5C, CHR ''r'']
      else if n < 32 \<or> (127 \<le> n \<and> n \<le> 160) \<or> n = 173
        then [CHR 0x5C, CHR ''x'', hex_char (n div 16), hex_char (n mod 16)]
      else [c])"

definition repr_str :: "string \<Rightarrow> string" where
  "repr_str s = (let q = repr_quote s in q # concat (map (repr_char q) s) @ [q])"

fun join_comma :: "string list \<Rightarrow> string" where
  "join_comma [] = []"
| "join_comma [x] = x"
| "join_comma (x # y # ys) = x @ '', '' @ join_comma (y # ys)"

fun repr :: "json \<Rightarrow> string"
  and repr_elems :: "json list \<Rightarrow> string list"
  and repr_items :: "string list \<Rightarrow> (string \<times> json) list \<Rightarrow> string list" where
  "repr JNull = ''None''"
| "repr (JBool b) = (if b then ''True'' else ''False'')"
| "repr (JInt n) = str_int n"
| "repr (JStr s) = repr_str s"
| "repr (JArr xs) = ''['' @ join_comma (repr_elems xs) @ '']''"
| "repr (JObj kvs) = ''{'' @ join_comma (repr_items [] kvs) @ ''}''"
| "repr_elems [] = []"
| "repr_elems (x # xs) = repr x # repr_elems xs"
| "repr_items seen [] = []"
| "repr_items seen ((k, v) # kvs) =
     (if k \<in> set seen then repr_items seen kvs
      else (repr_str k @ '': '' @ repr v) # repr_items (k # seen) kvs)"

fun str :: "json \<Rightarrow> string" where
  "str (JStr s) = s"
| "str v = repr v"

section \<open>Dates\<close>

text \<open>
  A \<^verbatim>\<open>datetime\<close> made by \<^verbatim>\<open>strptime\<close> with the format \<^verbatim>\<open>%Y-%m-%d\<close> has no time
  of day and no time zone, and adding whole days keeps it so. Such a value is identified
  by its proleptic Gregorian ordinal (1 January of year 1 is day 1), which is what
  \<^verbatim>\<open>datetime.__add__\<close> computes with. The functions below are those of the standard
  library's \<^verbatim>\<open>datetime.py\<close>.
\<close>

datatype datetime = Datetime (toordinal: int)

definition MAXORDINAL :: int where
  "MAXORDINAL = 3652059"

definition is_leap :: "int \<Rightarrow> bool" where
  "is_leap year = (year mod 4 = 0 \<and> (year mod 100 \<noteq> 0 \<or> year mod 400 = 0))"

definition days_before_year :: "int \<Rightarrow> int" where
  "days_before_year year =
     (let y = year - 1 in y * 365 + y div 4 - y div 100 + y div 400)"

definition DAYS_IN_MONTH :: "int list" where
  "DAYS_IN_MONTH = [-1, 31, 28, 31, 30, 31, 30, 31, 31, 30, 31, 30, 31]"

definition DAYS_BEFORE_MONTH :: "int list" where
  "DAYS_BEFORE_MONTH = [-1, 0, 31, 59, 90, 120, 151, 181, 212, 243, 273, 304, 334]"

definition days_in_month :: "int \<Rightarrow> nat \<Rightarrow> int" where
  "days_in_month year month =
     (if month = 2 \<and> is_leap year then 29 else DAYS_IN_MONTH ! month)"

definition days_before_month :: "int \<Rightarrow> nat \<Rightarrow> int" where
  "days_before_month year month =
     DAYS_BEFORE_MONTH ! month + (if month > 2 \<and> is_leap year then 1 else 0)"

definition ymd2ord :: "int \<Rightarrow> nat \<Rightarrow> int \<Rightarrow> int" where
  "ymd2ord year month day = days_before_year year + days_before_month year month + day"

text \<open>
  The constructor \<^verbatim>\<open>datetime(year, month, day)\<close> with its check of the fields
  (\<^verbatim>\<open>_check_date_fields\<close>).
\<close>

definition check_date_fields :: "int \<Rightarrow> nat \<Rightarrow> int \<Rightarrow> bool" where
  "check_date_fields year month day =
     (1 \<le> year \<and> year \<le> 9999 \<and> 1 \<le> month \<and> month \<le> 12
      \<and> 1 \<le> day \<and> day \<le> days_in_month year month)"

definition datetime_ymd :: "int \<Rightarrow> nat \<Rightarrow> int \<Rightarrow> datetime result" where
  "datetime_ymd year month day =
     (if check_date_fields year month day then Inr (Datetime (ymd2ord year month day))
      else Inl ValueError)"

text \<open>
  \<^verbatim>\<open>timedelta(days=v)\<close>: an \<^verbatim>\<open>int\<close> (or a \<^verbatim>\<open>bool\<close>, which is an \<^verbatim>\<open>int\<close>) of
  magnitude at most 999999999; the value is the number of days.
\<close>

fun timedelta_days :: "json \<Rightarrow> int result" where
  "timedelta_days (JInt n) = (if \<bar>n\<bar> > 999999999 then Inl OverflowError else Inr n)"
| "timedelta_days (JBool b) = Inr (if b then 1 else 0)"
| "timedelta_days _ = Inl TypeError"

text \<open>\<^verbatim>\<open>datetime + timedelta\<close>: the result must be a day of the years 1 to 9999.\<close>

definition datetime_add :: "datetime \<Rightarrow> int \<Rightarrow> datetime result" where
  "datetime_add d n =
     (let days = toordinal d + n in
      if 0 < days \<and> days \<le> MAXORDINAL then Inr (Datetime days) else Inl OverflowError)"

subsection \<open>\<^verbatim>\<open>datetime.strptime(s, '%Y-%m-%d')\<close>\<close>

text \<open>
  \<^verbatim>\<open>_strptime.py\<close> turns the format into the regular expression
  \<^verbatim>\<open>(?P<Y>\d\d\d\d)-(?P<m>1[0-2]|0[1-9]|[1-9])-(?P<d>3[0-1]|[1-2]\d|0[1-9]|[1-9]| [1-9])\<close>,
  matches it at the start of the string, refuses text left over after the match, and
  builds the date from the three numbers. Each group below lists the ways its
  alternatives match at the start of a string, in the order the regular expression tries
  them, as pairs of the number read and the text that remains. In a pattern over
  \<^verbatim>\<open>str\<close> the class \<^verbatim>\<open>\d\<close> is every decimal digit of Unicode; a string here holds
  code points below 256 only, and among these the decimal digits are \<^verbatim>\<open>0\<close> to
  \<^verbatim>\<open>9\<close>, which is what \<open>is_digit\<close> tests. Strings with a code point from 256 on,
  among them the digits of other scripts that \<^verbatim>\<open>\d\<close> matches too, are outside this
  development.
\<close>

definition is_digit :: "char \<Rightarrow> bool" where
  "is_digit c = (48 \<le> (of_char c :: nat) \<and> (of_char c :: nat) \<le> 57)"

definition digit_val :: "char \<Rightarrow> nat" where
  "digit_val c = of_char c - 48"

definition in_range :: "char \<Rightarrow> char \<Rightarrow> char \<Rightarrow> bool" where
  "in_range lo hi c = ((of_char lo :: nat) \<le> of_char c \<and> (of_char c :: nat) \<le> of_char hi)"

fun match_Y :: "string \<Rightarrow> (nat \<times> string) list" where
  "match_Y (a # b # c # d # rest) =
     (if is_digit a \<and> is_digit b \<and> is_digit c \<and> is_digit d
      then [(1000 * digit_val a + 100 * digit_val b + 10 * digit_val c + digit_val d, rest)]
      else [])"
| "match_Y _ = []"

fun two_chars :: "(char \<Rightarrow> bool) \<Rightarrow> (char \<Rightarrow> bool) \<Rightarrow> string \<Rightarrow> (nat \<times> string) list" where
  "two_chars p q (a # b # rest) =
     (if p a \<and> q b then [(10 * digit_val a + digit_val b, rest)] else [])"
| "two_chars p q _ = []"

fun one_char :: "(char \<Rightarrow> bool) \<Rightarrow> string \<Rightarrow> (nat \<times> string) list" where
  "one_char p (a # rest) = (if p a then [(digit_val a, rest)] else [])"
| "one_char p _ = []"

fun space_char :: "(char \<Rightarrow> bool) \<Rightarrow> string \<Rightarrow> (nat \<times> string) list" where
  "space_char p (a # b # rest) =
     (if a = CHR '' '' \<and> p b then [(digit_val b, rest)] else [])"
| "space_char p _ = []"

definition match_m :: "string \<Rightarrow> (nat \<times> string) list" where
  "match_m s =
     two_chars (\<lambda>c. c = CHR ''1'') (in_range CHR ''0'' CHR ''2'') s
     @ two_chars (\<lambda>c. c = CHR ''0'') (in_range CHR ''1'' CHR ''9'') s
     @ one_char (in_range CHR ''1'' CHR ''9'') s"

definition match_d :: "string \<Rightarrow> (nat \<times> string) list" where
  "match_d s =
     two_chars (\<lambda>c. c = CHR ''3'') (in_range CHR ''0'' CHR ''1'') s
     @ two_chars (in_range CHR ''1'' CHR ''2'') is_digit s
     @ two_chars (\<lambda>c. c = CHR ''0'') (in_range CHR ''1'' CHR ''9'') s
     @ one_char (in_range CHR ''1'' CHR ''9'') s
     @ space_char (in_range CHR ''1'' CHR ''9'') s"

fun match_dash :: "string \<Rightarrow> string list" where
  "match_dash (c # rest) = (if c = CHR ''-'' then [rest] else [])"
| "match_dash [] = []"

text \<open>
  All the ways the whole expression matches, in the order a backtracking matcher finds
  them; \<^verbatim>\<open>re.match\<close> returns the first.
\<close>

definition regex_matches :: "string \<Rightarrow> ((nat \<times> nat \<times> nat) \<times> string) list" where
  "regex_matches s =
     concat (map (\<lambda>(y, r1). concat (map (\<lambda>r2.
       concat (map (\<lambda>(m, r3). concat (map (\<lambda>r4.
         map (\<lambda>(d, r5). ((y, m, d), r5)) (match_d r4)) (match_dash r3))) (match_m r2)))
       (match_dash r1))) (match_Y s))"

definition strptime_ymd :: "string \<Rightarrow> datetime result" where
  "strptime_ymd s =
     (case regex_matches s of
        [] \<Rightarrow> Inl ValueError
      | ((y, m, d), rest) # _ \<Rightarrow>
          if rest \<noteq> [] then Inl ValueError else datetime_ymd (int y) m (int d))"

text \<open>The first argument of \<^verbatim>\<open>strptime\<close> must be a \<^verbatim>\<open>str\<close>.\<close>

fun strptime :: "json \<Rightarrow> datetime result" where
  "strptime (JStr s) = strptime_ymd s"
| "strptime _ = Inl TypeError"

section \<open>The schedule parser\<close>

text \<open>One entry of the list \<^verbatim>\<open>tasks\<close> that \<^verbatim>\<open>prepare_gantt_data\<close> builds.\<close>

record row =
  Task :: string
  Start :: datetime
  Finish :: datetime
  Critical_Path :: string
  Section :: json

text \<open>The body of the inner loop (lines 20 to 31): one task of a section.\<close>

definition task_row :: "json \<Rightarrow> json \<Rightarrow> row result" where
  "task_row section_name task =
     and_then (getitem task ''task_name'') (\<lambda>task_name.
     and_then (getitem task ''start_date'') (\<lambda>sd.
     and_then (strptime sd) (\<lambda>start_date.
     and_then (getitem task ''duration_days'') (\<lambda>duration_days.
     and_then (timedelta_days duration_days) (\<lambda>delta.
     and_then (datetime_add start_date delta) (\<lambda>end_date.
     and_then (get_default task ''is_critical'' (JBool False)) (\<lambda>is_critical.
     Inr \<lparr> Task = str task_name,
           Start = start_date,
           Finish = end_date,
           Critical_Path = (if truthy is_critical then ''Critical'' else ''Non-Critical''),
           Section = section_name \<rparr>)))))))"

text \<open>The inner loop: \<open>tasks\<close> is the list built so far, each row is appended to it.\<close>

fun tasks_loop :: "json \<Rightarrow> json list \<Rightarrow> row list \<Rightarrow> row list result" where
  "tasks_loop section_name [] tasks = Inr tasks"
| "tasks_loop section_name (task # rest) tasks =
     and_then (task_row section_name task) (\<lambda>r.
     tasks_loop section_name rest (tasks @ [r]))"

text \<open>The body of the outer loop (lines 18 to 31): one section.\<close>

definition section_rows :: "json \<Rightarrow> row list \<Rightarrow> row list result" where
  "section_rows section tasks =
     and_then (getitem section ''section_name'') (\<lambda>section_name.
     and_then (getitem section ''tasks'') (\<lambda>ts.
     and_then (iterate ts) (\<lambda>items.
     tasks_loop section_name items tasks)))"

fun sections_loop :: "json list \<Rightarrow> row list \<Rightarrow> row list result" where
  "sections_loop [] tasks = Inr tasks"
| "sections_loop (section # rest) tasks =
     and_then (section_rows section tasks) (\<lambda>tasks'. sections_loop rest tasks')"

text \<open>Lines 15 to 32 of \<^verbatim>\<open>prepare_gantt_data\<close>: the loaded document \<open>data\<close> to rows and title.\<close>

definition gantt_data :: "json \<Rightarrow> (row list \<times> json) result" where
  "gantt_data data =
     and_then (get_default data ''chart_name'' (JStr ''Project Gantt Chart'')) (\<lambda>chart_name.
     and_then (get_default data ''sections'' (JArr [])) (\<lambda>secs.
     and_then (iterate secs) (\<lambda>sections.
     and_then (sections_loop sections []) (\<lambda>tasks.
     Inr (tasks, chart_name)))))"

section \<open>Files, the chart and the callbacks\<close>

text \<open>
  The chart specification is what \<^verbatim>\<open>create_gantt_figure\<close> hands to the charting
  library: the arguments of \<^verbatim>\<open>px.timeline\<close> and of the three updates, each setting
  written as in the source. What the library makes of them is outside the program.
\<close>

record figure =
  fig_data_frame :: "row list"
  fig_x_start :: string
  fig_x_end :: string
  fig_y :: string
  fig_color :: string
  fig_color_discrete_map :: "(string \<times> string) list"
  fig_title :: json
  fig_layout :: "(string \<times> string) list"
  fig_xaxes :: "(string \<times> string) list"
  fig_yaxes :: "(string \<times> string) list"

text \<open>
  What the program sees of its surroundings. \<open>load p\<close> is the outcome of
  \<^verbatim>\<open>json.load(open(p))\<close> for the path \<open>p\<close>: the loaded value, or the exception raised by
  \<^verbatim>\<open>open\<close> or by \<^verbatim>\<open>json.load\<close>. \<open>listdir_json\<close> is the outcome of
  \<^verbatim>\<open>os.listdir("json")\<close>. The charting library is not part of the program: \<open>timeline\<close>
  is the exception, if any, that \<^verbatim>\<open>px.timeline\<close> raises for the rows and title it is
  given, and \<open>write_image\<close> the exception, if any, that \<^verbatim>\<open>pio.write_image\<close> raises for
  a chart and an output name. \<open>images\<close> are the files written by
  \<^verbatim>\<open>pio.write_image\<close>, in the order written.
\<close>

record world =
  load :: "string \<Rightarrow> json result"
  listdir_json :: "string list result"
  timeline :: "row list \<Rightarrow> json \<Rightarrow> py_error option"
  write_image :: "figure \<Rightarrow> string \<Rightarrow> py_error option"
  images :: "(string \<times> figure) list"

text \<open>
  \<^verbatim>\<open>prepare_gantt_data(json_file)\<close>. The argument is the value of the selector, which
  is \<^verbatim>\<open>None\<close> when no file is listed; \<^verbatim>\<open>open(None)\<close> raises \<^verbatim>\<open>TypeError\<close>.
\<close>

definition prepare_gantt_data :: "world \<Rightarrow> string option \<Rightarrow> (row list \<times> json) result" where
  "prepare_gantt_data w json_file =
     and_then (case json_file of None \<Rightarrow> Inl TypeError | Some p \<Rightarrow> load w p) gantt_data"

definition chart_spec :: "row list \<Rightarrow> json \<Rightarrow> figure" where
  "chart_spec tasks chart_title =
     \<lparr> fig_data_frame = tasks,
       fig_x_start = ''Start'',
       fig_x_end = ''Finish'',
       fig_y = ''Task'',
       fig_color = ''Critical Path'',
       fig_color_discrete_map = [(''Critical'', ''#C81D25''), (''Non-Critical'', ''#3C4E66'')],
       fig_title = chart_title,
       fig_layout =
         [(''plot_bgcolor'', ''#F4F4F9''),
          (''paper_bgcolor'', ''#F4F4F9''),
          (''xaxis_title'', ''Timeline''),
          (''yaxis_title'', ''Tasks''),
          (''title_x'', ''0.5''),
          (''xaxis.tickformat'', ''%Y-%m''),
          (''height'', ''600''),
          (''font.family'', ''Arial''),
          (''font.color'', ''#3C4E66''),
          (''title_font.size'', ''24''),
          (''title_font.family'', ''Arial Black''),
          (''title_font.color'', ''#3C4E66'')],
       fig_xaxes = [(''showgrid'', ''False'')],
       fig_yaxes = [(''showgrid'', ''False''), (''categoryorder'', ''total ascending'')] \<rparr>"

text \<open>
  \<^verbatim>\<open>create_gantt_figure\<close>: the call of \<^verbatim>\<open>px.timeline\<close> comes first and may raise;
  the three updates set constants.
\<close>

definition create_gantt_figure :: "world \<Rightarrow> row list \<Rightarrow> json \<Rightarrow> figure result" where
  "create_gantt_figure w tasks chart_title =
     (case timeline w tasks chart_title of
        Some e \<Rightarrow> Inl e
      | None \<Rightarrow> Inr (chart_spec tasks chart_title))"

definition update_gantt_chart :: "world \<Rightarrow> string option \<Rightarrow> figure result" where
  "update_gantt_chart w json_file =
     and_then (prepare_gantt_data w json_file) (\<lambda>(tasks, chart_name).
     create_gantt_figure w tasks chart_name)"

subsection \<open>Export\<close>

text \<open>\<^verbatim>\<open>os.path.basename\<close> (POSIX): what follows the last slash.\<close>

definition basename :: "string \<Rightarrow> string" where
  "basename p = rev (takeWhile (\<lambda>c. c \<noteq> CHR ''/'') (rev p))"

text \<open>
  \<^verbatim>\<open>s.replace(old, new)\<close>: every occurrence of \<open>old\<close>, left to right, without overlap;
  an empty \<open>old\<close> matches before every character and at the end.
\<close>

function replace :: "string \<Rightarrow> string \<Rightarrow> string \<Rightarrow> string" where
  "replace old new s =
     (if old = [] then new @ concat (map (\<lambda>c. c # new) s)
      else if s = [] then []
      else if take (length old) s = old then new @ replace old new (drop (length old) s)
      else hd s # replace old new (tl s))"
  by pat_completeness auto
termination
  by (relation "measure (\<lambda>(old, new, s). length s)") auto

declare replace.simps [simp del]

text \<open>
  \<^verbatim>\<open>export_chart(n_clicks, json_file)\<close>: \<open>n_clicks\<close> is \<^verbatim>\<open>None\<close> until the button is
  pressed, then a count. The result is the status message and the surroundings after the
  call. \<^verbatim>\<open>os.path.basename(None)\<close> raises \<^verbatim>\<open>TypeError\<close>. When
  \<^verbatim>\<open>pio.write_image\<close> raises, nothing is written.
\<close>

definition export_chart :: "world \<Rightarrow> int option \<Rightarrow> string option \<Rightarrow> (string \<times> world) result" where
  "export_chart w n_clicks json_file =
     (if (case n_clicks of None \<Rightarrow> False | Some n \<Rightarrow> n \<noteq> 0) then
        and_then (prepare_gantt_data w json_file) (\<lambda>(tasks, chart_name).
        and_then (create_gantt_figure w tasks chart_name) (\<lambda>fig.
        and_then (case json_file of None \<Rightarrow> Inl TypeError | Some p \<Rightarrow> Inr (basename p)) (\<lambda>base.
        let output_filename = replace ''.json'' ''_gantt_chart.png'' base
        in (case write_image w fig output_filename of
              Some e \<Rightarrow> Inl e
            | None \<Rightarrow>
                Inr (''Gantt chart exported as '' @ [CHR 0x27] @ output_filename @ [CHR 0x27],
                     w\<lparr>images := images w @ [(output_filename, fig)]\<rparr>)))))
      else Inr ([], w))"

subsection \<open>The file registry\<close>

definition endswith :: "string \<Rightarrow> string \<Rightarrow> bool" where
  "endswith s suffix = (length suffix \<le> length s \<and> drop (length s - length suffix) s = suffix)"

text \<open>\<^verbatim>\<open>os.path.join("json", f)\<close> (POSIX): an absolute \<open>f\<close> replaces the directory.\<close>

definition path_join_json :: "string \<Rightarrow> string" where
  "path_join_json f = (if take 1 f = ''/'' then f else ''json/'' @ f)"

text \<open>An element of the listing: the keys \<^verbatim>\<open>"file"\<close> and \<^verbatim>\<open>"name"\<close> of the source.\<close>

record entry =
  entry_file :: string
  entry_name :: json

text \<open>One element of the list comprehension of \<^verbatim>\<open>load_json_files\<close>.\<close>

definition json_file_entry :: "world \<Rightarrow> string \<Rightarrow> entry result" where
  "json_file_entry w f =
     and_then (load w (path_join_json f)) (\<lambda>data.
     and_then (get_default data ''chart_name'' (JStr f)) (\<lambda>n.
     Inr \<lparr> entry_file = path_join_json f, entry_name = n \<rparr>))"

fun entries_loop :: "world \<Rightarrow> string list \<Rightarrow> entry list result" where
  "entries_loop w [] = Inr []"
| "entries_loop w (f # fs) =
     (if endswith f ''.json'' then
        and_then (json_file_entry w f) (\<lambda>e.
        and_then (entries_loop w fs) (\<lambda>es. Inr (e # es)))
      else entries_loop w fs)"

definition load_json_files :: "world \<Rightarrow> entry list result" where
  "load_json_files w = and_then (listdir_json w) (entries_loop w)"

section \<open>The specification's notions\<close>

text \<open>
  The definitions of this section follow the words of the specification, not the code;
  the theorems compare them with the parser.
\<close>

subsection \<open>The calendar format \<^verbatim>\<open>YYYY-MM-DD\<close>\<close>

text \<open>
  A string matches \<^verbatim>\<open>YYYY-MM-DD\<close> when it is four digits, a dash, two digits, a dash
  and two digits, and the three numbers are a date of the calendar (years 1 to 9999).
\<close>

fun iso_ymd :: "string \<Rightarrow> (nat \<times> nat \<times> nat) option" where
  "iso_ymd [y1, y2, y3, y4, h1, m1, m2, h2, d1, d2] =
     (if is_digit y1 \<and> is_digit y2 \<and> is_digit y3 \<and> is_digit y4 \<and> h1 = CHR ''-''
         \<and> is_digit m1 \<and> is_digit m2 \<and> h2 = CHR ''-'' \<and> is_digit d1 \<and> is_digit d2
      then Some (1000 * digit_val y1 + 100 * digit_val y2 + 10 * digit_val y3 + digit_val y4,
                 10 * digit_val m1 + digit_val m2,
                 10 * digit_val d1 + digit_val d2)
      else None)"
| "iso_ymd _ = None"

definition iso_date :: "string \<Rightarrow> bool" where
  "iso_date s =
     (case iso_ymd s of None \<Rightarrow> False | Some (y, m, d) \<Rightarrow> check_date_fields (int y) m (int d))"

text \<open>The date a \<^verbatim>\<open>YYYY-MM-DD\<close> string names.\<close>

definition iso_datetime :: "string \<Rightarrow> datetime" where
  "iso_datetime s =
     (case iso_ymd s of None \<Rightarrow> Datetime 0 | Some (y, m, d) \<Rightarrow> Datetime (ymd2ord (int y) m (int d)))"





subsection \<open>Valid schedule documents\<close>

text \<open>
  The input file format: an object with an optional string \<^verbatim>\<open>chart_name\<close> and an array
  \<^verbatim>\<open>sections\<close> of objects with a string \<^verbatim>\<open>section_name\<close> and an array \<^verbatim>\<open>tasks\<close>;
  a task is an object with a string \<^verbatim>\<open>task_name\<close>, a \<^verbatim>\<open>start_date\<close> in the
  calendar format, an integer \<^verbatim>\<open>duration_days\<close> and an optional boolean
  \<^verbatim>\<open>is_critical\<close>.
\<close>

definition field :: "json \<Rightarrow> string \<Rightarrow> json option" where
  "field v k = (case v of JObj kvs \<Rightarrow> map_of kvs k | _ \<Rightarrow> None)"

definition valid_task :: "json \<Rightarrow> bool" where
  "valid_task t =
     ((case field t ''task_name'' of Some (JStr n) \<Rightarrow> True | _ \<Rightarrow> False) \<and>
      (case field t ''start_date'' of Some (JStr s) \<Rightarrow> iso_date s | _ \<Rightarrow> False) \<and>
      (case field t ''duration_days'' of Some (JInt n) \<Rightarrow> True | _ \<Rightarrow> False) \<and>
      (case field t ''is_critical'' of None \<Rightarrow> True | Some (JBool b) \<Rightarrow> True | _ \<Rightarrow> False))"

definition valid_section :: "json \<Rightarrow> bool" where
  "valid_section sec =
     ((case field sec ''section_name'' of Some (JStr n) \<Rightarrow> True | _ \<Rightarrow> False) \<and>
      (case field sec ''tasks'' of Some (JArr ts) \<Rightarrow> list_all valid_task ts | _ \<Rightarrow> False))"

definition valid_schedule :: "json \<Rightarrow> bool" where
  "valid_schedule data =
     ((case field data ''chart_name'' of None \<Rightarrow> True | Some (JStr n) \<Rightarrow> True | _ \<Rightarrow> False) \<and>
      (case field data ''sections'' of Some (JArr secs) \<Rightarrow> list_all valid_section secs
       | _ \<Rightarrow> False))"

text \<open>The sections of a document, the tasks of a section, all tasks in document order.\<close>

definition sections_of :: "json \<Rightarrow> json list" where
  "sections_of data = (case field data ''sections'' of Some (JArr secs) \<Rightarrow> secs | _ \<Rightarrow> [])"

definition tasks_of :: "json \<Rightarrow> json list" where
  "tasks_of sec = (case field sec ''tasks'' of Some (JArr ts) \<Rightarrow> ts | _ \<Rightarrow> [])"

definition all_tasks :: "json \<Rightarrow> json list" where
  "all_tasks data = concat (map tasks_of (sections_of data))"

text \<open>Start (as an ordinal), duration and end of a task, as the data model defines them.\<close>

definition start_of :: "json \<Rightarrow> int" where
  "start_of t =
     (case field t ''start_date'' of Some (JStr s) \<Rightarrow> toordinal (iso_datetime s) | _ \<Rightarrow> 0)"

definition duration_of :: "json \<Rightarrow> int" where
  "duration_of t = (case field t ''duration_days'' of Some (JInt n) \<Rightarrow> n | _ \<Rightarrow> 0)"

definition end_in_range :: "json \<Rightarrow> bool" where
  "end_in_range t =
     (0 < start_of t + duration_of t \<and> start_of t + duration_of t \<le> MAXORDINAL)"

text \<open>The timeline row of a task: the projection of the task plus its section's name.\<close>

definition timeline_row :: "json \<Rightarrow> json \<Rightarrow> row" where
  "timeline_row sec t =
     \<lparr> Task = (case field t ''task_name'' of Some (JStr n) \<Rightarrow> n | _ \<Rightarrow> []),
       Start = Datetime (start_of t),
       Finish = Datetime (start_of t + duration_of t),
       Critical_Path =
         (if field t ''is_critical'' = Some (JBool True) then ''Critical'' else ''Non-Critical''),
       Section = (case field sec ''section_name'' of Some n \<Rightarrow> n | None \<Rightarrow> JNull) \<rparr>"

definition timeline_rows :: "json \<Rightarrow> row list" where
  "timeline_rows data =
     concat (map (\<lambda>sec. map (timeline_row sec) (tasks_of sec)) (sections_of data))"

text \<open>The chart title: the document's \<^verbatim>\<open>chart_name\<close>, or the fixed placeholder.\<close>

definition chart_title :: "json \<Rightarrow> json" where
  "chart_title data =
     (case field data ''chart_name'' of None \<Rightarrow> JStr ''Project Gantt Chart'' | Some n \<Rightarrow> n)"

subsection \<open>The error taxonomy\<close>

text \<open>
  The program defines no exception of its own. A \<^verbatim>\<open>MalformedScheduleError\<close> of the
  specification is one of the exceptions Python raises when the document has not the
  expected structure, an \<^verbatim>\<open>InvalidDateError\<close> is the \<^verbatim>\<open>ValueError\<close> of
  \<^verbatim>\<open>strptime\<close>.
\<close>

fun malformed_schedule_error :: "py_error \<Rightarrow> bool" where
  "malformed_schedule_error (KeyError k) = True"
| "malformed_schedule_error TypeError = True"
| "malformed_schedule_error AttributeError = True"
| "malformed_schedule_error _ = False"

text \<open>
  The top-level shape: a sequence of sections, each containing a sequence of tasks.
\<close>

definition has_sections_shape :: "json \<Rightarrow> bool" where
  "has_sections_shape data =
     (case field data ''sections'' of
        Some (JArr secs) \<Rightarrow>
          list_all (\<lambda>sec. case field sec ''tasks'' of Some (JArr ts) \<Rightarrow> True | _ \<Rightarrow> False) secs
      | _ \<Rightarrow> False)"

subsection \<open>The shape as the parser sees it\<close>

text \<open>
  The parser reads the sections with \<^verbatim>\<open>data.get("sections", [])\<close> and walks sections
  and tasks with \<^verbatim>\<open>for\<close>. What it takes for a sequence is therefore anything Python
  iterates (a list, and also a string or an object), and a document without
  \<^verbatim>\<open>sections\<close> has the empty sequence of sections. \<open>document_shape\<close> is the shape
  of the specification read in this way: the document is an object, its \<^verbatim>\<open>sections\<close>,
  when present, can be iterated, and every item is an object with an entry \<^verbatim>\<open>tasks\<close>
  that can be iterated. The defect of a document with a section out of shape is its first
  such section: the parser walks the sections before it, and in that section it reads no
  task. \<open>tasks_before_defect_succeed\<close> says that every task of a named section before
  the defect yields a row.
\<close>

definition section_shape :: "json \<Rightarrow> bool" where
  "section_shape sec = (case field sec ''tasks'' of None \<Rightarrow> False | Some v \<Rightarrow> \<not> isl (iterate v))"

definition document_shape :: "json \<Rightarrow> bool" where
  "document_shape data =
     (case data of
        JObj kvs \<Rightarrow>
          (case map_of kvs ''sections'' of
             None \<Rightarrow> True
           | Some v \<Rightarrow> (case iterate v of Inl e \<Rightarrow> False | Inr secs \<Rightarrow> list_all section_shape secs))
      | _ \<Rightarrow> False)"

definition section_tasks_succeed :: "json \<Rightarrow> bool" where
  "section_tasks_succeed sec =
     (case getitem sec ''section_name'' of
        Inl e \<Rightarrow> True
      | Inr sn \<Rightarrow>
          (case getitem sec ''tasks'' of
             Inl e \<Rightarrow> True
           | Inr v \<Rightarrow>
               (case iterate v of
                  Inl e \<Rightarrow> True
                | Inr ts \<Rightarrow> list_all (\<lambda>t. \<not> isl (task_row sn t)) ts)))"

definition tasks_before_defect_succeed :: "json \<Rightarrow> bool" where
  "tasks_before_defect_succeed data =
     (case data of
        JObj kvs \<Rightarrow>
          (case map_of kvs ''sections'' of
             None \<Rightarrow> True
           | Some v \<Rightarrow>
               (case iterate v of
                  Inl e \<Rightarrow> True
                | Inr secs \<Rightarrow> list_all section_tasks_succeed (takeWhile section_shape secs)))
      | _ \<Rightarrow> True)"

text \<open>The empty sequences of Python that a document can hold: list, string, object.\<close>

definition empty_sequence :: "json \<Rightarrow> bool" where
  "empty_sequence v = (v = JArr [] \<or> v = JStr [] \<or> v = JObj [])"

section \<open>Example documents\<close>

text \<open>The schedule of the specification's scenario.\<close>

definition launch_doc :: json where
  "launch_doc =
     JObj [(''chart_name'', JStr ''Launch''),
           (''sections'', JArr [
              JObj [(''section_name'', JStr ''Prep''),
                    (''tasks'', JArr [
                       JObj [(''task_name'', JStr ''Design''),
                             (''start_date'', JStr ''2024-01-01''),
                             (''duration_days'', JInt 5),
                             (''is_critical'', JBool True)]])]])]"

text \<open>Builders for documents without \<^verbatim>\<open>chart_name\<close> and tasks without \<^verbatim>\<open>is_critical\<close>.\<close>

definition task_json :: "string \<Rightarrow> string \<Rightarrow> int \<Rightarrow> json" where
  "task_json n s d =
     JObj [(''task_name'', JStr n), (''start_date'', JStr s), (''duration_days'', JInt d)]"

definition section_json :: "string \<Rightarrow> json list \<Rightarrow> json" where
  "section_json n ts = JObj [(''section_name'', JStr n), (''tasks'', JArr ts)]"

definition schedule_json :: "json list \<Rightarrow> json" where
  "schedule_json secs = JObj [(''sections'', JArr secs)]"

text \<open>A schedule with a zero and a negative duration, in two sections.\<close>

definition two_section_doc :: json where
  "two_section_doc =
     schedule_json
       [section_json ''Prep''
          [task_json ''Design'' ''2024-01-01'' 5, task_json ''Review'' ''2024-01-06'' 0],
        section_json ''Build'' [task_json ''Rework'' ''2024-02-29'' (- 3)]]"

text \<open>A schedule whose only task would end after the year 9999.\<close>

definition overflow_doc :: json where
  "overflow_doc = schedule_json [section_json ''Build'' [task_json ''Archive'' ''2024-01-01'' 4000000]]"



text \<open>
  The charting library as it behaves in the examples: \<^verbatim>\<open>px.timeline\<close> refuses an
  empty list of rows with \<^verbatim>\<open>ValueError\<close> and a date that cannot be held in
  nanoseconds (before 1677-09-22 or after 2262-04-11) with \<^verbatim>\<open>TypeError\<close>;
  \<^verbatim>\<open>pio.write_image\<close> refuses an output name without the suffix of an image format
  with \<^verbatim>\<open>ValueError\<close>.
\<close>

definition example_timeline :: "row list \<Rightarrow> json \<Rightarrow> py_error option" where
  "example_timeline tasks chart_name =
     (if tasks = [] then Some ValueError
      else if list_all (\<lambda>r. 612412 \<le> toordinal (Start r) \<and> toordinal (Start r) \<le> 825914
                           \<and> 612412 \<le> toordinal (Finish r) \<and> toordinal (Finish r) \<le> 825914) tasks
      then None else Some TypeError)"

definition example_write_image :: "figure \<Rightarrow> string \<Rightarrow> py_error option" where
  "example_write_image fig output_filename =
     (if list_ex (endswith output_filename)
          [''.png'', ''.jpg'', ''.jpeg'', ''.webp'', ''.svg'', ''.pdf'', ''.eps'', ''.json'']
      then None else Some ValueError)"

text \<open>
  Surroundings given by the files that load (every other path is missing), the directory
  listing and the images written so far.
\<close>

definition world_of ::
  "(string \<times> json result) list \<Rightarrow> string list result \<Rightarrow> (string \<times> figure) list \<Rightarrow> world" where
  "world_of files listing imgs =
     \<lparr> load = (\<lambda>p. case map_of files p of None \<Rightarrow> Inl FileNotFoundError | Some r \<Rightarrow> r),
       listdir_json = listing,
       timeline = example_timeline,
       write_image = example_write_image,
       images = imgs \<rparr>"



text \<open>
  The display name the specification gives a listed file: the chart name the file declares,
  or the file's own name.
\<close>

definition display_name :: "world \<Rightarrow> string \<Rightarrow> json" where
  "display_name w f =
     (case load w (path_join_json f) of
        Inr (JObj kvs) \<Rightarrow> (case map_of kvs ''chart_name'' of None \<Rightarrow> JStr f | Some n \<Rightarrow> n)
      | _ \<Rightarrow> JStr f)"

text \<open>
  The exception of a listed file that is no schedule object: the one raised by
  \<^verbatim>\<open>open\<close> or \<^verbatim>\<open>json.load\<close>, or the \<^verbatim>\<open>AttributeError\<close> of \<^verbatim>\<open>.get\<close> on a
  loaded value that is no object.
\<close>

definition file_error :: "world \<Rightarrow> string \<Rightarrow> py_error" where
  "file_error w f = (case load w (path_join_json f) of Inl e \<Rightarrow> e | Inr v \<Rightarrow> AttributeError)"

text \<open>
  A directory with a schedule that declares its name, a schedule that declares none and a
  file that is no schedule; the same directory with a file that is not JSON; and a
  directory with a file that holds a list, then a file that is not JSON.
\<close>

definition listing_world :: world where
  "listing_world =
     world_of [(''json/good.json'', Inr launch_doc), (''json/plain.json'', Inr two_section_doc)]
       (Inr [''good.json'', ''notes.txt'', ''plain.json'']) []"

definition bad_file_world :: world where
  "bad_file_world =
     world_of [(''json/good.json'', Inr launch_doc), (''json/bad.json'', Inl JSONDecodeError)]
       (Inr [''good.json'', ''bad.json'']) []"

definition two_bad_files_world :: world where
  "two_bad_files_world =
     world_of [(''json/a.json'', Inr (JArr [])), (''json/b.json'', Inl JSONDecodeError)]
       (Inr [''a.json'', ''b.json'']) []"

text \<open>
  The output name the specification gives an export: the original file name without its
  extension, then \<^verbatim>\<open>_gantt_chart\<close> and the extension of the image.
\<close>

definition strip_extension :: "string \<Rightarrow> string" where
  "strip_extension f =
     (if CHR ''.'' \<in> set f then rev (tl (dropWhile (\<lambda>c. c \<noteq> CHR ''.'') (rev f))) else f)"

definition expected_output_name :: "string \<Rightarrow> string" where
  "expected_output_name p = strip_extension (basename p) @ ''_gantt_chart.png''"

text \<open>A directory with the schedule \<^verbatim>\<open>plan.json\<close> and a copy named \<^verbatim>\<open>a.json.json\<close>.\<close>

definition export_world :: world where
  "export_world =
     world_of [(''json/plan.json'', Inr launch_doc), (''json/a.json.json'', Inr launch_doc)]
       (Inr [''plan.json'', ''a.json.json'']) []"

text \<open>A schedule whose second section has no \<^verbatim>\<open>tasks\<close>.\<close>

definition missing_tasks_doc :: json where
  "missing_tasks_doc =
     schedule_json
       [section_json ''Prep'' [task_json ''Design'' ''2024-01-01'' 5],
        JObj [(''section_name'', JStr ''Build'')]]"

text \<open>
  A schedule whose first section has no \<^verbatim>\<open>tasks\<close> and whose second section holds a
  task with a date in the wrong format.
\<close>

definition defect_first_doc :: json where
  "defect_first_doc =
     schedule_json
       [JObj [(''section_name'', JStr ''Prep'')],
        section_json ''Build'' [task_json ''Test'' ''01-01-2024'' 5]]"

text \<open>A schedule whose sections are the empty string, and a section whose tasks are.\<close>

definition empty_string_doc :: json where
  "empty_string_doc = JObj [(''chart_name'', JStr ''Launch''), (''sections'', JStr [])]"

definition empty_tasks_section :: json where
  "empty_tasks_section = JObj [(''section_name'', JStr ''Prep''), (''tasks'', JObj [])]"

section \<open>Sequencing and the two loops\<close>

lemma and_then_Inl [simp]: "and_then (Inl e) f = Inl e"
  by (simp add: and_then_def)

lemma and_then_Inr [simp]: "and_then (Inr v) f = f v"
  by (simp add: and_then_def)


lemma and_then_eq_Inl:
  "and_then r f = Inl e \<longleftrightarrow> r = Inl e \<or> (\<exists>v. r = Inr v \<and> f v = Inl e)"
  by (cases r) simp_all

section \<open>The date parser\<close>

lemma char_eq_code: "c = d \<longleftrightarrow> (of_char c :: nat) = of_char d"
  by simp

lemma month_cases: "1 \<le> m \<Longrightarrow> m \<le> 12 \<Longrightarrow> m \<in> {1,2,3,4,5,6,7,8,9,10,11,12::nat}"
  by (simp; arith)

lemma days_in_month_le: "1 \<le> m \<Longrightarrow> m \<le> 12 \<Longrightarrow> days_in_month y m \<le> 31"
  by (drule (1) month_cases) (auto simp: days_in_month_def DAYS_IN_MONTH_def)

lemma match_m_iso:
  assumes "is_digit m1" "is_digit m2" "1 \<le> 10 * digit_val m1 + digit_val m2"
    "10 * digit_val m1 + digit_val m2 \<le> 12"
  shows "concat (map (\<lambda>(m, r3). concat (map (f m) (match_dash r3))) (match_m (m1 # m2 # CHR ''-'' # r)))
     = f (10 * digit_val m1 + digit_val m2) r"
  using assms
  by (auto simp: match_m_def is_digit_def digit_val_def in_range_def char_eq_code[of _ "CHR ''1''"] char_eq_code[of _ "CHR ''0''"] char_eq_code[of _ "CHR ''-''"])

lemma match_d_iso:
  assumes "is_digit d1" "is_digit d2" "1 \<le> 10 * digit_val d1 + digit_val d2"
    "10 * digit_val d1 + digit_val d2 \<le> 31"
  shows "\<exists>rest. match_d [d1, d2] = (10 * digit_val d1 + digit_val d2, []) # rest"
  using assms
  by (auto simp: match_d_def is_digit_def digit_val_def in_range_def char_eq_code[of _ "CHR ''3''"] char_eq_code[of _ "CHR ''0''"] char_eq_code[of _ "CHR '' ''"])

lemma iso_ymd_SomeD:
  assumes "iso_ymd s = Some (y, m, d)"
  obtains y1 y2 y3 y4 m1 m2 d1 d2 where
    "s = [y1, y2, y3, y4, CHR ''-'', m1, m2, CHR ''-'', d1, d2]"
    "is_digit y1" "is_digit y2" "is_digit y3" "is_digit y4"
    "is_digit m1" "is_digit m2" "is_digit d1" "is_digit d2"
    "y = 1000 * digit_val y1 + 100 * digit_val y2 + 10 * digit_val y3 + digit_val y4"
    "m = 10 * digit_val m1 + digit_val m2"
    "d = 10 * digit_val d1 + digit_val d2"
  using assms by (cases s rule: iso_ymd.cases) (auto split: if_splits)

lemma strptime_ymd_iso:
  assumes "iso_ymd s = Some (y, m, d)" and "check_date_fields (int y) m (int d)"
  shows "strptime_ymd s = Inr (Datetime (ymd2ord (int y) m (int d)))"
proof -
  from assms(1) obtain y1 y2 y3 y4 m1 m2 d1 d2 where
    s: "s = [y1, y2, y3, y4, CHR ''-'', m1, m2, CHR ''-'', d1, d2]"
    and dig: "is_digit y1" "is_digit y2" "is_digit y3" "is_digit y4"
      "is_digit m1" "is_digit m2" "is_digit d1" "is_digit d2"
    and y: "y = 1000 * digit_val y1 + 100 * digit_val y2 + 10 * digit_val y3 + digit_val y4"
    and m: "m = 10 * digit_val m1 + digit_val m2"
    and d: "d = 10 * digit_val d1 + digit_val d2"
    by (rule iso_ymd_SomeD)
  from assms(2) have mr: "1 \<le> m" "m \<le> 12" and dr: "1 \<le> int d" "int d \<le> days_in_month (int y) m"
    by (auto simp: check_date_fields_def)
  from dr days_in_month_le[OF mr, of "int y"] have dr': "1 \<le> d" "d \<le> 31" by auto
  from match_d_iso[OF dig(7,8)] dr' d obtain rest where
    md: "match_d [d1, d2] = (d, []) # rest" by auto
  have "regex_matches s = ((y, m, d), []) # map (\<lambda>(d, r5). ((y, m, d), r5)) rest"
    using dig(1-4) mr
    by (simp add: regex_matches_def s match_m_iso[OF dig(5,6), unfolded m[symmetric]] md y m)
  then show ?thesis
    using assms(2) by (simp add: strptime_ymd_def datetime_ymd_def)
qed





lemma in_range_is_digit: "in_range CHR ''0'' CHR ''9'' c = is_digit c"
  by (simp add: in_range_def is_digit_def)

















section \<open>Ordinals of calendar dates\<close>

lemma div_pred:
  fixes y n :: int
  assumes "0 < n"
  shows "y div n = (y - 1) div n + (if y mod n = 0 then 1 else 0)"
proof -
  define q r where "q = y div n" and "r = y mod n"
  have y: "y = n * q + r" and r: "0 \<le> r" "r < n"
    using assms by (simp_all add: q_def r_def)
  show ?thesis
  proof (cases "r = 0")
    case True
    have "(y - 1) div n = q - 1"
    proof (rule int_div_pos_eq)
      show "y - 1 = n * (q - 1) + (n - 1)" using y True by (simp add: algebra_simps)
    qed (use assms in simp_all)
    with True show ?thesis by (simp add: q_def r_def)
  next
    case False
    have "(y - 1) div n = q"
    proof (rule int_div_pos_eq)
      show "y - 1 = n * q + (r - 1)" using y by simp
    qed (use r False in simp_all)
    with False show ?thesis by (simp add: q_def r_def)
  qed
qed

lemma year_length:
  "days_before_year (y + 1) = days_before_year y + (if is_leap y then 366 else 365)"
proof -
  define A B C where "A = (y - 1) div 4" and "B = (y - 1) div 100" and "C = (y - 1) div 400"
  have a: "y mod 100 = 0" if "y mod 400 = 0"
  proof -
    from that have "400 dvd y" by (simp add: mod_eq_0_iff_dvd)
    moreover have "(100::int) dvd 400" by simp
    ultimately have "100 dvd y" by (rule dvd_trans[rotated])
    then show ?thesis by (simp add: mod_eq_0_iff_dvd)
  qed
  have b: "y mod 4 = 0" if "y mod 100 = 0"
  proof -
    from that have "100 dvd y" by (simp add: mod_eq_0_iff_dvd)
    moreover have "(4::int) dvd 100" by simp
    ultimately have "4 dvd y" by (rule dvd_trans[rotated])
    then show ?thesis by (simp add: mod_eq_0_iff_dvd)
  qed
  have d4: "y div 4 = A + (if y mod 4 = 0 then 1 else 0)"
    unfolding A_def by (rule div_pred) simp
  have d100: "y div 100 = B + (if y mod 100 = 0 then 1 else 0)"
    unfolding B_def by (rule div_pred) simp
  have d400: "y div 400 = C + (if y mod 400 = 0 then 1 else 0)"
    unfolding C_def by (rule div_pred) simp
  have e1: "days_before_year (y + 1) = y * 365 + y div 4 - y div 100 + y div 400"
    by (simp add: days_before_year_def)
  have e2: "days_before_year y = (y - 1) * 365 + A - B + C"
    by (simp add: days_before_year_def Let_def A_def B_def C_def)
  have e3: "(y - 1) * 365 = y * 365 - 365" by (simp add: algebra_simps)
  show ?thesis
  proof (cases "y mod 4 = 0")
    case False
    with a b have "y mod 100 \<noteq> 0" "y mod 400 \<noteq> 0" by auto
    with False show ?thesis
      unfolding e1 e2 e3 d4 d100 d400 is_leap_def by simp
  next
    case m4: True
    show ?thesis
    proof (cases "y mod 100 = 0")
      case False
      with a have "y mod 400 \<noteq> 0" by auto
      with False m4 show ?thesis
        unfolding e1 e2 e3 d4 d100 d400 is_leap_def by simp
    next
      case m100: True
      show ?thesis
      proof (cases "y mod 400 = 0")
        case True
        with m4 m100 show ?thesis
          unfolding e1 e2 e3 d4 d100 d400 is_leap_def by simp
      next
        case False
        with m4 m100 show ?thesis
          unfolding e1 e2 e3 d4 d100 d400 is_leap_def by simp
      qed
    qed
  qed
qed

lemma days_before_year_mono: "a \<le> b \<Longrightarrow> days_before_year a \<le> days_before_year b"
proof (induction b rule: int_ge_induct)
  case base
  show ?case by simp
next
  case (step i)
  from year_length[of i] have "days_before_year i \<le> days_before_year (i + 1)"
    by (simp split: if_splits)
  with step show ?case by simp
qed

lemma day_of_year_bounds:
  assumes "1 \<le> m" "m \<le> 12" "1 \<le> d" "d \<le> days_in_month y m"
  shows "1 \<le> days_before_month y m + d \<and>
         days_before_month y m + d \<le> (if is_leap y then 366 else 365)"
proof -
  from month_cases[OF assms(1,2)] consider "m = 1" | "m = 2" | "m = 3" | "m = 4" | "m = 5"
    | "m = 6" | "m = 7" | "m = 8" | "m = 9" | "m = 10" | "m = 11" | "m = 12" by auto
  then show ?thesis
    using assms(3,4)
    by cases (simp_all add: days_before_month_def days_in_month_def DAYS_IN_MONTH_def
        DAYS_BEFORE_MONTH_def split: if_splits)
qed

lemma ymd2ord_bounds:
  assumes "check_date_fields y m d"
  shows "1 \<le> ymd2ord y m d \<and> ymd2ord y m d \<le> MAXORDINAL"
proof -
  from assms have y: "1 \<le> y" "y \<le> 9999" and m: "1 \<le> m" "m \<le> 12"
    and d: "1 \<le> d" "d \<le> days_in_month y m"
    by (simp_all add: check_date_fields_def)
  from day_of_year_bounds[OF m d] have
    doy: "1 \<le> days_before_month y m + d"
      "days_before_month y m + d \<le> (if is_leap y then 366 else 365)"
    by simp_all
  have "days_before_year 1 \<le> days_before_year y" by (rule days_before_year_mono) (rule y)
  then have lo: "0 \<le> days_before_year y" by (simp add: days_before_year_def)
  have "days_before_year (y + 1) \<le> days_before_year 10000"
    by (rule days_before_year_mono) (use y in simp)
  then have "days_before_year y + (if is_leap y then 366 else 365) \<le> 3652059"
    unfolding year_length by (simp add: days_before_year_def)
  with doy lo show ?thesis
    by (simp add: ymd2ord_def MAXORDINAL_def)
qed

section \<open>The parser on valid schedule documents\<close>

lemma field_getitem: "field t k = Some v \<Longrightarrow> getitem t k = Inr v"
  by (cases t) (simp_all add: field_def)

lemma field_get_default: "field t k = Some v \<Longrightarrow> get_default t k d = Inr v"
  by (cases t) (simp_all add: field_def)

lemma field_None_get_default: "field (JObj kvs) k = None \<Longrightarrow> get_default (JObj kvs) k d = Inr d"
  by (simp add: field_def)

lemma iso_date_strptime:
  assumes "iso_date s"
  shows "strptime_ymd s = Inr (iso_datetime s)"
    and "1 \<le> toordinal (iso_datetime s)" and "toordinal (iso_datetime s) \<le> MAXORDINAL"
proof -
  from assms obtain y m d where ymd: "iso_ymd s = Some (y, m, d)"
    and chk: "check_date_fields (int y) m (int d)"
    by (auto simp: iso_date_def split: option.splits)
  from strptime_ymd_iso[OF ymd chk] show "strptime_ymd s = Inr (iso_datetime s)"
    by (simp add: iso_datetime_def ymd)
  from ymd2ord_bounds[OF chk]
  show "1 \<le> toordinal (iso_datetime s)" and "toordinal (iso_datetime s) \<le> MAXORDINAL"
    by (simp_all add: iso_datetime_def ymd)
qed

lemma valid_taskD:
  assumes "valid_task t"
  obtains n s d where "field t ''task_name'' = Some (JStr n)"
    "field t ''start_date'' = Some (JStr s)" "iso_date s"
    "field t ''duration_days'' = Some (JInt d)"
    "field t ''is_critical'' = None \<or> (\<exists>b. field t ''is_critical'' = Some (JBool b))"
  using assms unfolding valid_task_def
  by (auto split: option.splits json.splits)

lemma valid_task_row:
  assumes "valid_task t" and sn: "field sec ''section_name'' = Some sn"
  shows "task_row sn t =
     (if end_in_range t then Inr (timeline_row sec t) else Inl OverflowError)"
proof -
  from assms(1) obtain n s d where
    n: "field t ''task_name'' = Some (JStr n)"
    and s: "field t ''start_date'' = Some (JStr s)" and iso: "iso_date s"
    and d: "field t ''duration_days'' = Some (JInt d)"
    and c: "field t ''is_critical'' = None \<or> (\<exists>b. field t ''is_critical'' = Some (JBool b))"
    by (rule valid_taskD)
  from n obtain kvs where t: "t = JObj kvs" by (cases t) (simp_all add: field_def)
  have start: "start_of t = toordinal (iso_datetime s)" by (simp add: start_of_def s)
  have dur: "duration_of t = d" by (simp add: duration_of_def d)
  note b = iso_date_strptime[OF iso]
  have crit: "get_default t ''is_critical'' (JBool False) = Inr v \<Longrightarrow>
      truthy v = (field t ''is_critical'' = Some (JBool True))" for v
    using c by (auto simp: t field_def)
  obtain v where v: "get_default t ''is_critical'' (JBool False) = Inr v"
    by (simp add: t)
  have add: "datetime_add (iso_datetime s) d =
      (if end_in_range t then Inr (Datetime (start_of t + duration_of t)) else Inl OverflowError)"
    by (simp add: datetime_add_def end_in_range_def start dur Let_def)
  have big: "\<bar>d\<bar> > 999999999 \<Longrightarrow> \<not> end_in_range t"
    using b(2,3) unfolding end_in_range_def start dur MAXORDINAL_def by arith
  show ?thesis
  proof (cases "\<bar>d\<bar> > 999999999")
    case True
    with big show ?thesis
      by (simp add: task_row_def field_getitem[OF n] field_getitem[OF s] field_getitem[OF d] b(1))
  next
    case False
    then show ?thesis
      using crit[OF v]
      by (simp add: task_row_def field_getitem[OF n] field_getitem[OF s] field_getitem[OF d]
          b(1) add v timeline_row_def n sn start dur)
  qed
qed


lemma tasks_loop_valid:
  assumes "list_all valid_task ts" and sn: "field sec ''section_name'' = Some sn"
  shows "tasks_loop sn ts acc =
     (if list_all end_in_range ts then Inr (acc @ map (timeline_row sec) ts)
      else Inl OverflowError)"
  using assms(1)
proof (induction ts arbitrary: acc)
  case Nil
  show ?case by simp
next
  case (Cons t ts)
  then have t: "valid_task t" and ts: "list_all valid_task ts" by simp_all
  show ?case
    by (simp add: valid_task_row[OF t sn] Cons.IH[OF ts])
qed

lemma valid_sectionD:
  assumes "valid_section sec"
  obtains n ts where "field sec ''section_name'' = Some (JStr n)"
    "field sec ''tasks'' = Some (JArr ts)" "list_all valid_task ts" "tasks_of sec = ts"
  using assms unfolding valid_section_def tasks_of_def
  by (auto split: option.splits json.splits)

lemma section_rows_valid:
  assumes "valid_section sec"
  shows "section_rows sec acc =
     (if list_all end_in_range (tasks_of sec) then Inr (acc @ map (timeline_row sec) (tasks_of sec))
      else Inl OverflowError)"
proof -
  from assms obtain n ts where n: "field sec ''section_name'' = Some (JStr n)"
    and ts: "field sec ''tasks'' = Some (JArr ts)" and v: "list_all valid_task ts"
    and eq: "tasks_of sec = ts"
    by (rule valid_sectionD)
  show ?thesis
    by (simp add: section_rows_def field_getitem[OF n] field_getitem[OF ts]
        tasks_loop_valid[OF v n] eq)
qed

lemma sections_loop_valid:
  assumes "list_all valid_section secs"
  shows "sections_loop secs acc =
     (if list_all end_in_range (concat (map tasks_of secs))
      then Inr (acc @ concat (map (\<lambda>sec. map (timeline_row sec) (tasks_of sec)) secs))
      else Inl OverflowError)"
  using assms
proof (induction secs arbitrary: acc)
  case Nil
  show ?case by simp
next
  case (Cons sec secs)
  then have s: "valid_section sec" and ss: "list_all valid_section secs" by simp_all
  show ?case
    by (simp add: section_rows_valid[OF s] Cons.IH[OF ss])
qed

lemma gantt_data_valid:
  assumes "valid_schedule data"
  shows "gantt_data data =
     (if list_all end_in_range (all_tasks data) then Inr (timeline_rows data, chart_title data)
      else Inl OverflowError)"
proof -
  from assms obtain secs where secs: "field data ''sections'' = Some (JArr secs)"
    and v: "list_all valid_section secs"
    unfolding valid_schedule_def by (auto split: option.splits json.splits)
  from secs obtain kvs where data: "data = JObj kvs" by (cases data) (simp_all add: field_def)
  have so: "sections_of data = secs" by (simp add: sections_of_def secs)
  have t: "get_default data ''chart_name'' (JStr ''Project Gantt Chart'') = Inr (chart_title data)"
    by (simp add: data chart_title_def field_def)
  show ?thesis
    by (simp add: gantt_data_def t field_get_default[OF secs] sections_loop_valid[OF v]
        all_tasks_def timeline_rows_def so)
qed

section \<open>The scenario of the specification\<close>

lemma launch_doc_rows:
  "gantt_data launch_doc =
     Inr ([\<lparr>Task = ''Design'', Start = Datetime 738886, Finish = Datetime 738891,
             Critical_Path = ''Critical'', Section = JStr ''Prep''\<rparr>],
          JStr ''Launch'')"
  by code_simp

lemma launch_dates:
  "datetime_ymd 2024 1 1 = Inr (Datetime 738886)" "datetime_ymd 2024 1 6 = Inr (Datetime 738891)"
  by code_simp+

text \<open>
  C8. Parsing the scenario's document, wherever it is stored, yields exactly one row:
  task \<^verbatim>\<open>Design\<close>, starting on 2024-01-01, finishing on 2024-01-06, critical, of section
  \<^verbatim>\<open>Prep\<close>; the chart title is \<^verbatim>\<open>Launch\<close>.
\<close>

theorem launch_scenario:
  "prepare_gantt_data (w\<lparr>load := (load w)(p := Inr launch_doc)\<rparr>) (Some p) =
     Inr ([\<lparr>Task = ''Design'', Start = Datetime 738886, Finish = Datetime 738891,
             Critical_Path = ''Critical'', Section = JStr ''Prep''\<rparr>],
          JStr ''Launch'')
   \<and> datetime_ymd 2024 1 1 = Inr (Datetime 738886)
   \<and> datetime_ymd 2024 1 6 = Inr (Datetime 738891)"
  using launch_doc_rows launch_dates by (simp add: prepare_gantt_data_def)

section \<open>Row count and end dates\<close>

lemma list_all2_concat_map:
  assumes "\<And>x y. P y (f x y)"
  shows "list_all2 P (concat (map g xs)) (concat (map (\<lambda>x. map (f x) (g x)) xs))"
proof (induction xs)
  case Nil
  show ?case by simp
next
  case (Cons x xs)
  have "list_all2 P (g x) (map (f x) (g x))"
    by (simp add: list_all2_map2 list_all2_same assms)
  with Cons show ?case by (simp add: list_all2_appendI)
qed

lemma valid_task_all_tasks:
  assumes "valid_schedule data" and "t \<in> set (all_tasks data)"
  shows "valid_task t"
proof -
  from assms(1) obtain secs where secs: "field data ''sections'' = Some (JArr secs)"
    and v: "list_all valid_section secs"
    unfolding valid_schedule_def by (auto split: option.splits json.splits)
  from assms(2) obtain sec where "sec \<in> set secs" "t \<in> set (tasks_of sec)"
    by (auto simp: all_tasks_def sections_of_def secs)
  with v have "valid_section sec" and t: "t \<in> set (tasks_of sec)"
    by (simp_all add: list_all_iff)
  from this(1) obtain n ts where "list_all valid_task ts" "tasks_of sec = ts"
    by (rule valid_sectionD)
  with t show ?thesis by (simp add: list_all_iff)
qed

lemma zero_duration_in_range:
  assumes "valid_task t" and "duration_of t = 0"
  shows "end_in_range t"
proof -
  from assms(1) obtain n s d where s: "field t ''start_date'' = Some (JStr s)" and iso: "iso_date s"
    by (rule valid_taskD)
  from iso_date_strptime(2,3)[OF iso] assms(2) show ?thesis
    by (simp add: end_in_range_def start_of_def s)
qed

lemma timeline_row_dates:
  "toordinal (Start (timeline_row sec t)) = start_of t"
  "toordinal (Finish (timeline_row sec t)) = toordinal (Start (timeline_row sec t)) + duration_of t"
  by (simp_all add: timeline_row_def)

text \<open>
  C1, as amended. For every valid schedule document in which every task with a duration
  other than zero ends on a day of the years 1 to 9999, the parser returns one row per task
  of all sections, and each row's end date is its start date plus \<^verbatim>\<open>duration_days\<close>
  days. The duration may be any integer: zero (then start and end coincide, and the task
  is always accepted) or negative. For a valid schedule document with a task that ends
  outside these years the parser raises \<^verbatim>\<open>OverflowError\<close> and returns no rows.
\<close>

theorem row_per_task_end_is_start_plus_duration:
  assumes "valid_schedule data"
  shows "(list_all (\<lambda>t. duration_of t = 0 \<or> end_in_range t) (all_tasks data) \<longrightarrow>
      (\<exists>rows title. gantt_data data = Inr (rows, title)
         \<and> length rows = length (all_tasks data)
         \<and> list_all2 (\<lambda>t r. toordinal (Start r) = start_of t
               \<and> toordinal (Finish r) = toordinal (Start r) + duration_of t)
             (all_tasks data) rows))
     \<and> (\<not> list_all (\<lambda>t. duration_of t = 0 \<or> end_in_range t) (all_tasks data) \<longrightarrow>
          gantt_data data = Inl OverflowError)"
proof (intro conjI impI)
  assume r: "list_all (\<lambda>t. duration_of t = 0 \<or> end_in_range t) (all_tasks data)"
  have "list_all end_in_range (all_tasks data)"
    unfolding list_all_iff
  proof
    fix t assume t: "t \<in> set (all_tasks data)"
    with r have "duration_of t = 0 \<or> end_in_range t" by (simp add: list_all_iff)
    with zero_duration_in_range[OF valid_task_all_tasks[OF assms t]]
    show "end_in_range t" by blast
  qed
  then have g: "gantt_data data = Inr (timeline_rows data, chart_title data)"
    by (simp add: gantt_data_valid[OF assms])
  have l: "list_all2 (\<lambda>t r. toordinal (Start r) = start_of t
           \<and> toordinal (Finish r) = toordinal (Start r) + duration_of t)
        (all_tasks data) (timeline_rows data)"
    unfolding all_tasks_def timeline_rows_def
    by (rule list_all2_concat_map) (simp add: timeline_row_dates)
  from l have "length (timeline_rows data) = length (all_tasks data)"
    by (simp add: list_all2_lengthD)
  with g l show "\<exists>rows title. gantt_data data = Inr (rows, title)
         \<and> length rows = length (all_tasks data)
         \<and> list_all2 (\<lambda>t r. toordinal (Start r) = start_of t
               \<and> toordinal (Finish r) = toordinal (Start r) + duration_of t)
             (all_tasks data) rows" by blast
next
  assume "\<not> list_all (\<lambda>t. duration_of t = 0 \<or> end_in_range t) (all_tasks data)"
  then have "\<not> list_all end_in_range (all_tasks data)"
    by (auto simp: list_all_iff)
  then show "gantt_data data = Inl OverflowError"
    by (simp add: gantt_data_valid[OF assms])
qed

lemma two_section_doc_valid: "valid_schedule two_section_doc"
  by code_simp

lemma two_section_doc_range:
  "list_all (\<lambda>t. duration_of t = 0 \<or> end_in_range t) (all_tasks two_section_doc)"
  by code_simp

lemma overflow_doc_facts:
  "valid_schedule overflow_doc"
  "\<not> list_all (\<lambda>t. duration_of t = 0 \<or> end_in_range t) (all_tasks overflow_doc)"
  by code_simp+

text \<open>
  A schedule with durations 5, 0 and -3 is valid and its tasks end in the years 1 to 9999:
  it has a row for each task. A valid schedule with a task of 4000000 days from 2024-01-01
  is refused.
\<close>

theorem row_per_task_witness:
  "valid_schedule two_section_doc
   \<and> list_all (\<lambda>t. duration_of t = 0 \<or> end_in_range t) (all_tasks two_section_doc)
   \<and> (\<exists>rows title. gantt_data two_section_doc = Inr (rows, title)
     \<and> length rows = length (all_tasks two_section_doc)
     \<and> list_all2 (\<lambda>t r. toordinal (Start r) = start_of t
           \<and> toordinal (Finish r) = toordinal (Start r) + duration_of t)
         (all_tasks two_section_doc) rows)
   \<and> valid_schedule overflow_doc
   \<and> \<not> list_all (\<lambda>t. duration_of t = 0 \<or> end_in_range t) (all_tasks overflow_doc)
   \<and> gantt_data overflow_doc = Inl OverflowError"
  using two_section_doc_valid two_section_doc_range overflow_doc_facts
    row_per_task_end_is_start_plus_duration[OF two_section_doc_valid]
    row_per_task_end_is_start_plus_duration[OF overflow_doc_facts(1)]
  by blast

text \<open>
  C1 as stated fails: a valid schedule whose task starts on 2024-01-01 and lasts 4000000
  days is refused with \<^verbatim>\<open>OverflowError\<close>, and no row is returned.
\<close>

theorem overflow_counterexample:
  "valid_schedule overflow_doc \<and> length (all_tasks overflow_doc) = 1
   \<and> gantt_data overflow_doc = Inl OverflowError"
  by code_simp

section \<open>Document order and defaults\<close>

lemma two_section_doc_rows:
  "gantt_data two_section_doc =
     Inr ([\<lparr>Task = ''Design'', Start = Datetime 738886, Finish = Datetime 738891,
             Critical_Path = ''Non-Critical'', Section = JStr ''Prep''\<rparr>,
           \<lparr>Task = ''Review'', Start = Datetime 738891, Finish = Datetime 738891,
             Critical_Path = ''Non-Critical'', Section = JStr ''Prep''\<rparr>,
           \<lparr>Task = ''Rework'', Start = Datetime 738945, Finish = Datetime 738942,
             Critical_Path = ''Non-Critical'', Section = JStr ''Build''\<rparr>],
          JStr ''Project Gantt Chart'')"
  by code_simp

text \<open>
  C9. For every valid document the rows the parser returns are the rows of the tasks in
  document order: the sections in their order of appearance and, within each section, its
  tasks in their order of appearance.
\<close>

theorem rows_in_document_order:
  assumes "valid_schedule data" and "gantt_data data = Inr (rows, title)"
  shows "rows = concat (map (\<lambda>sec. map (timeline_row sec) (tasks_of sec)) (sections_of data))"
  using assms(2) unfolding gantt_data_valid[OF assms(1)] timeline_rows_def
  by (simp split: if_splits)

text \<open>
  The schedule with the tasks Design and Review in the first section and Rework in the
  second yields the rows in that order.
\<close>

theorem rows_in_document_order_witness:
  "valid_schedule two_section_doc
   \<and> (\<exists>rows title. gantt_data two_section_doc = Inr (rows, title)
        \<and> rows = concat (map (\<lambda>sec. map (timeline_row sec) (tasks_of sec))
                    (sections_of two_section_doc))
        \<and> map Task rows = [''Design'', ''Review'', ''Rework''])"
proof -
  note r = rows_in_document_order[OF two_section_doc_valid two_section_doc_rows]
  show ?thesis
    apply (rule conjI[OF two_section_doc_valid])
    apply (rule exI, rule exI)
    apply (rule conjI[OF two_section_doc_rows])
    apply (rule conjI[OF r])
    apply simp
    done
qed









section \<open>Labels\<close>












section \<open>The strings the date parser accepts\<close>











lemma two_chars_short [simp]: "two_chars p q [c] = []" "space_char p [c] = []"
  by simp_all






section \<open>Start dates\<close>














section \<open>The file registry\<close>

lemma json_file_entry_object:
  assumes "load w (path_join_json f) = Inr (JObj kvs)"
  shows "json_file_entry w f =
     Inr \<lparr>entry_file = path_join_json f, entry_name = display_name w f\<rparr>"
  using assms by (simp add: json_file_entry_def display_name_def split: option.splits)

lemma json_file_entry_bad:
  assumes "\<forall>kvs. load w (path_join_json f) \<noteq> Inr (JObj kvs)"
  shows "\<exists>e. json_file_entry w f = Inl e"
proof (cases "load w (path_join_json f)")
  case (Inl e)
  then show ?thesis by (simp add: json_file_entry_def)
next
  case (Inr v)
  with assms have "\<forall>kvs. v \<noteq> JObj kvs" by simp
  then have "get_default v ''chart_name'' (JStr f) = Inl AttributeError"
    by (cases v) simp_all
  with Inr show ?thesis by (simp add: json_file_entry_def)
qed

lemma entries_loop_good:
  assumes "\<forall>f\<in>set fs. endswith f ''.json'' \<longrightarrow> (\<exists>kvs. load w (path_join_json f) = Inr (JObj kvs))"
  shows "entries_loop w fs =
     Inr (map (\<lambda>f. \<lparr>entry_file = path_join_json f, entry_name = display_name w f\<rparr>)
            (filter (\<lambda>f. endswith f ''.json'') fs))"
  using assms
proof (induction fs)
  case Nil
  show ?case by simp
next
  case (Cons f fs)
  then have IH: "entries_loop w fs =
     Inr (map (\<lambda>f. \<lparr>entry_file = path_join_json f, entry_name = display_name w f\<rparr>)
            (filter (\<lambda>f. endswith f ''.json'') fs))"
    by simp
  show ?case
  proof (cases "endswith f ''.json''")
    case True
    with Cons.prems obtain kvs where "load w (path_join_json f) = Inr (JObj kvs)" by auto
    from json_file_entry_object[OF this] True IH show ?thesis by simp
  next
    case False
    with IH show ?thesis by simp
  qed
qed

lemma entries_loop_bad:
  assumes "f \<in> set fs" and "endswith f ''.json''"
    and "\<forall>kvs. load w (path_join_json f) \<noteq> Inr (JObj kvs)"
  shows "\<exists>e. entries_loop w fs = Inl e"
  using assms(1)
proof (induction fs)
  case Nil
  then show ?case by simp
next
  case (Cons g fs)
  show ?case
  proof (cases "g = f")
    case True
    from json_file_entry_bad[OF assms(3)] assms(2) True show ?thesis by auto
  next
    case False
    with Cons obtain e where e: "entries_loop w fs = Inl e" by auto
    show ?thesis
    proof (cases "endswith g ''.json''")
      case True
      with e show ?thesis by (cases "json_file_entry w g") simp_all
    next
      case False
      with e show ?thesis by simp
    qed
  qed
qed

lemma json_file_entry_error:
  assumes "\<forall>kvs. load w (path_join_json f) \<noteq> Inr (JObj kvs)"
  shows "json_file_entry w f = Inl (file_error w f)"
proof (cases "load w (path_join_json f)")
  case (Inl e)
  then show ?thesis by (simp add: json_file_entry_def file_error_def)
next
  case (Inr v)
  with assms have "\<forall>kvs. v \<noteq> JObj kvs" by simp
  then have "get_default v ''chart_name'' (JStr f) = Inl AttributeError"
    by (cases v) simp_all
  with Inr show ?thesis by (simp add: json_file_entry_def file_error_def)
qed

lemma entries_loop_first_bad:
  assumes "\<forall>g\<in>set pre. endswith g ''.json'' \<longrightarrow>
      (\<exists>kvs. load w (path_join_json g) = Inr (JObj kvs))"
    and "endswith f ''.json''"
    and "\<forall>kvs. load w (path_join_json f) \<noteq> Inr (JObj kvs)"
  shows "entries_loop w (pre @ f # post) = Inl (file_error w f)"
  using assms(1)
proof (induction pre)
  case Nil
  from json_file_entry_error[OF assms(3)] assms(2) show ?case by simp
next
  case (Cons g pre)
  then have IH: "entries_loop w (pre @ f # post) = Inl (file_error w f)" by simp
  show ?case
  proof (cases "endswith g ''.json''")
    case True
    with Cons.prems obtain kvs where "load w (path_join_json g) = Inr (JObj kvs)" by auto
    from json_file_entry_object[OF this] True IH show ?thesis by simp
  next
    case False
    with IH show ?thesis by simp
  qed
qed

text \<open>
  C5, as amended. When every listed schedule file loads as an object, the listing holds
  each of them, in the order of the directory, under the chart name it declares or, when it
  declares none, under its own file name. A schedule file that does not load, or whose
  content is not an object, makes the whole listing fail; the exception is the one of the
  first such file in the order of the directory.
\<close>

theorem listing_names:
  assumes "listdir_json w = Inr fs"
  shows "((\<forall>f\<in>set fs. endswith f ''.json'' \<longrightarrow>
            (\<exists>kvs. load w (path_join_json f) = Inr (JObj kvs))) \<longrightarrow>
          load_json_files w =
            Inr (map (\<lambda>f. \<lparr>entry_file = path_join_json f, entry_name = display_name w f\<rparr>)
                  (filter (\<lambda>f. endswith f ''.json'') fs)))
     \<and> (\<forall>f\<in>set fs. endswith f ''.json'' \<and>
            (\<forall>kvs. load w (path_join_json f) \<noteq> Inr (JObj kvs)) \<longrightarrow>
          (\<exists>e. load_json_files w = Inl e))
     \<and> (\<forall>pre f post. fs = pre @ f # post
            \<and> (\<forall>g\<in>set pre. endswith g ''.json'' \<longrightarrow>
                  (\<exists>kvs. load w (path_join_json g) = Inr (JObj kvs)))
            \<and> endswith f ''.json''
            \<and> (\<forall>kvs. load w (path_join_json f) \<noteq> Inr (JObj kvs)) \<longrightarrow>
          load_json_files w = Inl (file_error w f))"
proof (intro conjI impI allI ballI)
  assume "\<forall>f\<in>set fs. endswith f ''.json'' \<longrightarrow>
      (\<exists>kvs. load w (path_join_json f) = Inr (JObj kvs))"
  from entries_loop_good[OF this] show "load_json_files w =
      Inr (map (\<lambda>f. \<lparr>entry_file = path_join_json f, entry_name = display_name w f\<rparr>)
            (filter (\<lambda>f. endswith f ''.json'') fs))"
    by (simp add: load_json_files_def assms)
next
  fix f
  assume "f \<in> set fs"
    and "endswith f ''.json'' \<and> (\<forall>kvs. load w (path_join_json f) \<noteq> Inr (JObj kvs))"
  with entries_loop_bad[of f fs w] show "\<exists>e. load_json_files w = Inl e"
    by (simp add: load_json_files_def assms)
next
  fix pre f post
  assume a: "fs = pre @ f # post
      \<and> (\<forall>g\<in>set pre. endswith g ''.json'' \<longrightarrow>
            (\<exists>kvs. load w (path_join_json g) = Inr (JObj kvs)))
      \<and> endswith f ''.json''
      \<and> (\<forall>kvs. load w (path_join_json f) \<noteq> Inr (JObj kvs))"
  then have "entries_loop w (pre @ f # post) = Inl (file_error w f)"
    by (intro entries_loop_first_bad) simp_all
  with a show "load_json_files w = Inl (file_error w f)"
    by (simp add: load_json_files_def assms)
qed

lemma listing_world_facts:
  "listdir_json listing_world = Inr [''good.json'', ''notes.txt'', ''plain.json'']"
  "\<forall>f\<in>set [''good.json'', ''notes.txt'', ''plain.json'']. endswith f ''.json'' \<longrightarrow>
     (\<exists>kvs. load listing_world (path_join_json f) = Inr (JObj kvs))"
  "map (\<lambda>f. \<lparr>entry_file = path_join_json f, entry_name = display_name listing_world f\<rparr>)
     (filter (\<lambda>f. endswith f ''.json'') [''good.json'', ''notes.txt'', ''plain.json'']) =
   [\<lparr>entry_file = ''json/good.json'', entry_name = JStr ''Launch''\<rparr>,
    \<lparr>entry_file = ''json/plain.json'', entry_name = JStr ''plain.json''\<rparr>]"
  by (simp_all add: listing_world_def world_of_def endswith_def path_join_json_def display_name_def
      launch_doc_def two_section_doc_def schedule_json_def)

lemma bad_file_world_facts:
  "listdir_json bad_file_world = Inr [''good.json'', ''bad.json'']"
  "''bad.json'' \<in> set [''good.json'', ''bad.json'']"
  "endswith ''bad.json'' ''.json''"
  "\<forall>kvs. load bad_file_world (path_join_json ''bad.json'') \<noteq> Inr (JObj kvs)"
  by (simp_all add: bad_file_world_def world_of_def endswith_def path_join_json_def)

lemma two_bad_files_facts:
  "listdir_json two_bad_files_world = Inr [''a.json'', ''b.json'']"
  "[''a.json'', ''b.json''] = [] @ ''a.json'' # [''b.json'']"
  "\<forall>g\<in>set []. endswith g ''.json'' \<longrightarrow>
     (\<exists>kvs. load two_bad_files_world (path_join_json g) = Inr (JObj kvs))"
  "endswith ''a.json'' ''.json''"
  "\<forall>kvs. load two_bad_files_world (path_join_json ''a.json'') \<noteq> Inr (JObj kvs)"
  "file_error two_bad_files_world ''a.json'' = AttributeError"
  "load two_bad_files_world ''json/a.json'' = Inr (JArr [])"
  "load two_bad_files_world ''json/b.json'' = Inl JSONDecodeError"
  by (simp_all add: two_bad_files_world_def world_of_def endswith_def path_join_json_def
      file_error_def)

text \<open>
  A directory whose schedules load: the one without \<^verbatim>\<open>chart_name\<close> is listed under
  its file name, the file that is no schedule is left out. A directory with a file that is
  not JSON: the listing fails. A directory with a file that holds a list, then a file that
  is not JSON: the listing fails with the \<^verbatim>\<open>AttributeError\<close> of the first.
\<close>

theorem listing_names_witness:
  "load_json_files listing_world =
     Inr [\<lparr>entry_file = ''json/good.json'', entry_name = JStr ''Launch''\<rparr>,
          \<lparr>entry_file = ''json/plain.json'', entry_name = JStr ''plain.json''\<rparr>]
   \<and> (\<exists>e. load_json_files bad_file_world = Inl e)
   \<and> load two_bad_files_world ''json/a.json'' = Inr (JArr [])
   \<and> load two_bad_files_world ''json/b.json'' = Inl JSONDecodeError
   \<and> load_json_files two_bad_files_world = Inl AttributeError"
proof -
  from listing_names[OF listing_world_facts(1)] listing_world_facts(2)
  have "load_json_files listing_world =
      Inr (map (\<lambda>f. \<lparr>entry_file = path_join_json f, entry_name = display_name listing_world f\<rparr>)
        (filter (\<lambda>f. endswith f ''.json'') [''good.json'', ''notes.txt'', ''plain.json'']))"
    by blast
  then have 1: "load_json_files listing_world =
     Inr [\<lparr>entry_file = ''json/good.json'', entry_name = JStr ''Launch''\<rparr>,
          \<lparr>entry_file = ''json/plain.json'', entry_name = JStr ''plain.json''\<rparr>]"
    by (simp only: listing_world_facts(3))
  from listing_names[OF bad_file_world_facts(1)] bad_file_world_facts(2,3,4)
  have 2: "\<exists>e. load_json_files bad_file_world = Inl e" by blast
  from listing_names[OF two_bad_files_facts(1)]
  have "\<forall>pre f post. [''a.json'', ''b.json''] = pre @ f # post
            \<and> (\<forall>g\<in>set pre. endswith g ''.json'' \<longrightarrow>
                  (\<exists>kvs. load two_bad_files_world (path_join_json g) = Inr (JObj kvs)))
            \<and> endswith f ''.json''
            \<and> (\<forall>kvs. load two_bad_files_world (path_join_json f) \<noteq> Inr (JObj kvs)) \<longrightarrow>
          load_json_files two_bad_files_world = Inl (file_error two_bad_files_world f)"
    by blast
  from this[rule_format, of "[]" "''a.json''" "[''b.json'']"] two_bad_files_facts(2,3,4,5)
  have "load_json_files two_bad_files_world = Inl (file_error two_bad_files_world ''a.json'')"
    by blast
  then have 3: "load_json_files two_bad_files_world = Inl AttributeError"
    by (simp only: two_bad_files_facts(6))
  from 1 2 3 two_bad_files_facts(7,8) show ?thesis by blast
qed

text \<open>
  C5 as stated fails: with a file \<^verbatim>\<open>bad.json\<close> that is not JSON in the directory, the
  listing is not produced at all, although the other file is a schedule.
\<close>

theorem bad_file_counterexample:
  "load bad_file_world ''json/bad.json'' = Inl JSONDecodeError
   \<and> load bad_file_world ''json/good.json'' = Inr launch_doc
   \<and> load_json_files bad_file_world = Inl JSONDecodeError"
  by (simp add: load_json_files_def bad_file_world_def world_of_def endswith_def
      path_join_json_def json_file_entry_def launch_doc_def)

section \<open>Export\<close>

lemma output_names:
  "replace ''.json'' ''_gantt_chart.png'' (basename ''json/a.json.json'') =
     ''a_gantt_chart.png_gantt_chart.png''"
  "expected_output_name ''json/a.json.json'' = ''a.json_gantt_chart.png''"
  "replace ''.json'' ''_gantt_chart.png'' (basename ''json/plan.json'') = ''plan_gantt_chart.png''"
  "expected_output_name ''json/plan.json'' = ''plan_gantt_chart.png''"
  by code_simp+

lemma export_world_load:
  "load export_world ''json/a.json.json'' = Inr launch_doc"
  "load export_world ''json/plan.json'' = Inr launch_doc"
  by (simp_all add: export_world_def world_of_def)

lemma export_chart_not_clicked: "export_chart w None json_file = Inr ([], w)"
  by (simp add: export_chart_def)

text \<open>
  C4 at the file name \<^verbatim>\<open>a.json.json\<close>: the export succeeds, and the image is written
  and reported under the name \<^verbatim>\<open>a_gantt_chart.png_gantt_chart.png\<close>, where the
  specification asks for \<^verbatim>\<open>a.json_gantt_chart.png\<close>. For \<^verbatim>\<open>plan.json\<close> the name is
  the specified \<^verbatim>\<open>plan_gantt_chart.png\<close>, and before any click the status is empty.
\<close>

theorem export_replaces_every_json:
  "export_chart export_world (Some 1) (Some ''json/a.json.json'') =
     Inr (''Gantt chart exported as '' @ [CHR 0x27] @ ''a_gantt_chart.png_gantt_chart.png''
            @ [CHR 0x27],
          export_world\<lparr>images :=
            [(''a_gantt_chart.png_gantt_chart.png'',
              chart_spec
                [\<lparr>Task = ''Design'', Start = Datetime 738886, Finish = Datetime 738891,
                   Critical_Path = ''Critical'', Section = JStr ''Prep''\<rparr>]
                (JStr ''Launch''))]\<rparr>)
   \<and> expected_output_name ''json/a.json.json'' = ''a.json_gantt_chart.png''
   \<and> export_chart export_world (Some 1) (Some ''json/plan.json'') =
     Inr (''Gantt chart exported as '' @ [CHR 0x27] @ expected_output_name ''json/plan.json''
            @ [CHR 0x27],
          export_world\<lparr>images :=
            [(expected_output_name ''json/plan.json'',
              chart_spec
                [\<lparr>Task = ''Design'', Start = Datetime 738886, Finish = Datetime 738891,
                   Critical_Path = ''Critical'', Section = JStr ''Prep''\<rparr>]
                (JStr ''Launch''))]\<rparr>)
   \<and> export_chart export_world None (Some ''json/a.json.json'') = Inr ([], export_world)"
proof -
  have i: "images export_world = []" by (simp add: export_world_def world_of_def)
  have t: "timeline export_world
      [\<lparr>Task = ''Design'', Start = Datetime 738886, Finish = Datetime 738891,
         Critical_Path = ''Critical'', Section = JStr ''Prep''\<rparr>] (JStr ''Launch'') = None"
    by (simp add: export_world_def world_of_def example_timeline_def)
  have w: "write_image export_world fig ''a_gantt_chart.png_gantt_chart.png'' = None"
    "write_image export_world fig ''plan_gantt_chart.png'' = None" for fig
    by (simp_all add: export_world_def world_of_def example_write_image_def endswith_def)
  show ?thesis
    by (simp add: export_chart_def prepare_gantt_data_def create_gantt_figure_def
        export_world_load launch_doc_rows output_names i t w Let_def)
qed

section \<open>Malformed documents\<close>

lemma getitem_error: "getitem x k = Inl e \<Longrightarrow> malformed_schedule_error e"
  by (cases x) (auto split: option.splits)

lemma iterate_error: "iterate v = Inl e \<Longrightarrow> e = TypeError"
  by (cases v) auto

lemma getitem_field: "getitem x k = Inr v \<Longrightarrow> field x k = Some v"
  by (cases x) (auto simp: field_def split: option.splits)

lemma tasks_loop_succeeds:
  assumes "list_all (\<lambda>t. \<not> isl (task_row sn t)) ts"
  shows "\<exists>rows. tasks_loop sn ts acc = Inr rows"
  using assms
proof (induction ts arbitrary: acc)
  case Nil
  show ?case by simp
next
  case (Cons t ts)
  then obtain r where "task_row sn t = Inr r" by (cases "task_row sn t") simp_all
  with Cons show ?case by simp
qed

lemma section_rows_bad:
  assumes "\<not> section_shape sec"
  shows "\<exists>e. section_rows sec acc = Inl e \<and> malformed_schedule_error e"
proof (cases "getitem sec ''section_name''")
  case (Inl e)
  with getitem_error[OF Inl] show ?thesis by (simp add: section_rows_def)
next
  case sn: (Inr sn)
  show ?thesis
  proof (cases "getitem sec ''tasks''")
    case (Inl e)
    with getitem_error[OF Inl] sn show ?thesis by (simp add: section_rows_def)
  next
    case (Inr v)
    from getitem_field[OF Inr] assms have "isl (iterate v)" by (simp add: section_shape_def)
    then obtain e where e: "iterate v = Inl e" by (cases "iterate v") simp_all
    with iterate_error[OF e] sn Inr show ?thesis by (simp add: section_rows_def)
  qed
qed

lemma section_rows_error:
  assumes "section_rows sec acc = Inl e" and "section_tasks_succeed sec"
  shows "malformed_schedule_error e"
proof (cases "getitem sec ''section_name''")
  case (Inl e')
  with assms(1) getitem_error[OF Inl] show ?thesis by (simp add: section_rows_def)
next
  case sn: (Inr sn)
  show ?thesis
  proof (cases "getitem sec ''tasks''")
    case (Inl e')
    with assms(1) getitem_error[OF Inl] sn show ?thesis by (simp add: section_rows_def)
  next
    case v: (Inr v)
    show ?thesis
    proof (cases "iterate v")
      case (Inl e')
      with assms(1) iterate_error[OF Inl] sn v show ?thesis by (simp add: section_rows_def)
    next
      case (Inr ts)
      with assms(2) sn v have "list_all (\<lambda>t. \<not> isl (task_row sn t)) ts"
        by (simp add: section_tasks_succeed_def)
      from tasks_loop_succeeds[OF this, of acc] assms(1) sn v Inr show ?thesis
        by (auto simp: section_rows_def)
    qed
  qed
qed

lemma sections_loop_bad:
  assumes "\<not> list_all section_shape secs"
  shows "\<exists>e. sections_loop secs acc = Inl e
     \<and> (list_all section_tasks_succeed (takeWhile section_shape secs)
          \<longrightarrow> malformed_schedule_error e)"
  using assms
proof (induction secs arbitrary: acc)
  case Nil
  then show ?case by simp
next
  case (Cons sec secs)
  show ?case
  proof (cases "section_shape sec")
    case False
    from section_rows_bad[OF False, of acc] show ?thesis by auto
  next
    case True
    show ?thesis
    proof (cases "section_rows sec acc")
      case (Inl e)
      with section_rows_error[OF Inl] True show ?thesis by simp
    next
      case (Inr acc')
      from True Cons.prems have "\<not> list_all section_shape secs" by simp
      from Cons.IH[OF this, of acc'] Inr True show ?thesis by auto
    qed
  qed
qed

lemma malformed_document:
  assumes "\<not> document_shape data"
  shows "\<exists>e. gantt_data data = Inl e
     \<and> (tasks_before_defect_succeed data \<longrightarrow> malformed_schedule_error e)"
proof (cases data)
  case (JObj kvs)
  with assms obtain v where v: "map_of kvs ''sections'' = Some v"
    by (auto simp: document_shape_def split: option.splits)
  show ?thesis
  proof (cases "iterate v")
    case (Inl e)
    with iterate_error[OF Inl] v JObj show ?thesis by (simp add: gantt_data_def)
  next
    case (Inr secs)
    with assms v JObj have "\<not> list_all section_shape secs" by (simp add: document_shape_def)
    from sections_loop_bad[OF this, of "[]"] obtain e where
      "sections_loop secs [] = Inl e"
      "list_all section_tasks_succeed (takeWhile section_shape secs)
         \<longrightarrow> malformed_schedule_error e" by blast
    with v JObj Inr show ?thesis by (simp add: gantt_data_def tasks_before_defect_succeed_def)
  qed
qed (simp_all add: gantt_data_def)

lemma iterate_empty_sequence: "empty_sequence v \<Longrightarrow> iterate v = Inr []"
  by (auto simp: empty_sequence_def)

lemma no_sections_no_rows:
  assumes "case map_of kvs ''sections'' of None \<Rightarrow> True | Some v \<Rightarrow> empty_sequence v"
  shows "gantt_data (JObj kvs) = Inr ([], chart_title (JObj kvs))"
proof (cases "map_of kvs ''sections''")
  case None
  then show ?thesis
    by (simp add: gantt_data_def chart_title_def field_def split: option.splits)
next
  case (Some v)
  with assms have "iterate v = Inr []" by (simp add: iterate_empty_sequence)
  with Some show ?thesis
    by (simp add: gantt_data_def chart_title_def field_def split: option.splits)
qed

lemma no_tasks_no_rows:
  assumes "getitem sec ''section_name'' = Inr sn" and "getitem sec ''tasks'' = Inr tv"
    and "empty_sequence tv"
  shows "section_rows sec acc = Inr acc"
  using assms by (simp add: section_rows_def iterate_empty_sequence)

text \<open>
  C2, as amended. A document that is not an object, or whose \<^verbatim>\<open>sections\<close> are present
  and cannot be iterated, or one of whose sections is not an object with \<^verbatim>\<open>tasks\<close>
  that can be iterated, makes the parser fail, and no rows are returned. The exception
  is \<^verbatim>\<open>AttributeError\<close>, \<^verbatim>\<open>TypeError\<close> or \<^verbatim>\<open>KeyError\<close> whenever every task
  of the sections before the first section out of shape yields a row, so that no task
  met before the defect fails with an error of its own; what follows the defect is never
  read. A document without \<^verbatim>\<open>sections\<close>, or whose \<^verbatim>\<open>sections\<close> are an empty list,
  string or object, is no error: it parses to no rows and its title. A section with a
  name whose \<^verbatim>\<open>tasks\<close> are an empty list, string or object adds no row.
\<close>

theorem malformed_document_fails:
  "(\<not> document_shape data \<longrightarrow>
      (\<exists>e. gantt_data data = Inl e
         \<and> (tasks_before_defect_succeed data \<longrightarrow> malformed_schedule_error e)))
   \<and> ((case map_of kvs ''sections'' of None \<Rightarrow> True | Some v \<Rightarrow> empty_sequence v) \<longrightarrow>
        gantt_data (JObj kvs) = Inr ([], chart_title (JObj kvs)))
   \<and> (getitem sec ''section_name'' = Inr sn \<and> getitem sec ''tasks'' = Inr tv
        \<and> empty_sequence tv \<longrightarrow> section_rows sec acc = Inr acc)"
  using malformed_document no_sections_no_rows no_tasks_no_rows by blast

lemma missing_tasks_facts:
  "\<not> document_shape missing_tasks_doc" "tasks_before_defect_succeed missing_tasks_doc"
  "gantt_data missing_tasks_doc = Inl (KeyError ''tasks'')"
  by code_simp+

lemma defect_first_facts:
  "\<not> document_shape defect_first_doc" "tasks_before_defect_succeed defect_first_doc"
  "gantt_data defect_first_doc = Inl (KeyError ''tasks'')"
  by code_simp+

lemma empty_sequence_facts:
  "map_of [(''chart_name'', JStr ''Launch''), (''sections'', JStr [])] ''sections''
     = Some (JStr [])"
  "empty_sequence (JStr [])" "empty_sequence (JObj [])"
  "getitem empty_tasks_section ''section_name'' = Inr (JStr ''Prep'')"
  "getitem empty_tasks_section ''tasks'' = Inr (JObj [])"
  "chart_title empty_string_doc = JStr ''Launch''"
  by (simp_all add: empty_sequence_def empty_tasks_section_def empty_string_doc_def
      chart_title_def field_def)

text \<open>
  A schedule whose first section has no \<^verbatim>\<open>tasks\<close> fails with the \<^verbatim>\<open>KeyError\<close> of
  the missing key, whatever the later sections hold, and so does a schedule whose second
  section has none and whose first section is valid. A schedule whose sections are the
  empty string parses to no rows, and a section whose tasks are the empty object adds
  none.
\<close>

theorem malformed_document_fails_witness:
  "\<not> document_shape defect_first_doc \<and> tasks_before_defect_succeed defect_first_doc
   \<and> gantt_data defect_first_doc = Inl (KeyError ''tasks'')
   \<and> \<not> document_shape missing_tasks_doc \<and> tasks_before_defect_succeed missing_tasks_doc
   \<and> gantt_data missing_tasks_doc = Inl (KeyError ''tasks'')
   \<and> malformed_schedule_error (KeyError ''tasks'')
   \<and> gantt_data empty_string_doc = Inr ([], JStr ''Launch'')
   \<and> section_rows empty_tasks_section [] = Inr []"
  using malformed_document_fails[of defect_first_doc
      "[(''chart_name'', JStr ''Launch''), (''sections'', JStr [])]"
      empty_tasks_section "JStr ''Prep''" "JObj []" "[]"]
    malformed_document_fails[of missing_tasks_doc "[]" JNull JNull JNull "[]"]
    missing_tasks_facts defect_first_facts empty_sequence_facts
  by (simp add: empty_string_doc_def)

text \<open>
  C2 as stated fails: the empty object has no sequence of sections, and the parser
  returns no error but an empty list of rows with the placeholder title.
\<close>

theorem empty_document_counterexample:
  "\<not> has_sections_shape (JObj [])
   \<and> gantt_data (JObj []) = Inr ([], JStr ''Project Gantt Chart'')"
  by (simp add: has_sections_shape_def field_def gantt_data_def)

end
